theory Spec2Isabelle
  imports Complex_Main "HOL-Library.Sublist"
begin

section \<open>Values and exceptions of the Python program\<close>

text \<open>
  \<^verbatim>\<open>weather_cli.py\<close> handles three kinds of run-time values: the strings typed by the user,
  the JSON document decoded by \<^verbatim>\<open>resp.json()\<close>, and the dictionary \<^verbatim>\<open>simplified\<close> built
  from it. Python checks no types, so every field of the decoded document is an arbitrary
  JSON value. A float is represented by the real number it denotes (NaN and the infinities
  are not represented); characters are code points below 256; a decoded object is the
  association list of its members, read with \<open>map_of\<close>.
\<close>

datatype json =
    JNull
  | JBool bool
  | JInt int
  | JFloat real
  | JStr string
  | JArr "json list"
  | JObj "(string \<times> json) list"

type_synonym dict = "(string \<times> json) list"

text \<open>
  The built-in exceptions the program can meet. Only the key of a \<^verbatim>\<open>KeyError\<close> is kept;
  the message texts of the interpreter are dropped.
\<close>

datatype py_exc =
    KeyError json
  | TypeError
  | AttributeError
  | IndexError
  | JSONDecodeError
  | EOFError

text \<open>
  \<^verbatim>\<open>class WeatherError(Exception)\<close> is raised at five places of the source, each with its own
  message. One constructor per place, carrying what the message interpolates:
  \<^item> \<open>MissingCredential\<close>: \<^verbatim>\<open>API key not found. Please set the ... environment variable.\<close>
  \<^item> \<open>Network e\<close>: \<^verbatim>\<open>Network error while contacting OpenWeather: {e}\<close>
  \<^item> \<open>CityNotFound city\<close>: \<^verbatim>\<open>City '{city}' not found.\<close>
  \<^item> \<open>ApiStatus code text\<close>: \<^verbatim>\<open>OpenWeather API returned status {code}: {text}\<close>
  \<^item> \<open>MalformedResponse e\<close>: \<^verbatim>\<open>Unexpected API response format: {e}\<close>
\<close>

datatype weather_error =
    MissingCredential
  | Network string
  | CityNotFound json
  | ApiStatus int string
  | MalformedResponse py_exc

datatype exn = WeatherError weather_error | Uncaught py_exc

subsection \<open>Python operations on JSON values\<close>

text \<open>Truth value of an object, as \<^verbatim>\<open>if x\<close> and \<^verbatim>\<open>x or y\<close> test it.\<close>

fun truthy :: "json \<Rightarrow> bool" where
  "truthy JNull = False"
| "truthy (JBool b) = b"
| "truthy (JInt i) = (i \<noteq> 0)"
| "truthy (JFloat r) = (r \<noteq> 0)"
| "truthy (JStr s) = (s \<noteq> [])"
| "truthy (JArr xs) = (xs \<noteq> [])"
| "truthy (JObj kvs) = (kvs \<noteq> [])"

text \<open>\<^verbatim>\<open>d[k]\<close> on a dictionary: \<^verbatim>\<open>KeyError\<close> when the key is missing.\<close>

definition getitem :: "dict \<Rightarrow> string \<Rightarrow> py_exc + json" where
  "getitem d k = (case map_of d k of None \<Rightarrow> Inl (KeyError (JStr k)) | Some v \<Rightarrow> Inr v)"

text \<open>
  \<^verbatim>\<open>x[k]\<close> with a string key on any value: only a dictionary accepts it; a list and a
  string want integer indices and every other value is not subscriptable
  (\<^verbatim>\<open>TypeError\<close> in all these cases).
\<close>

fun subscript :: "json \<Rightarrow> string \<Rightarrow> py_exc + json" where
  "subscript (JObj d) k = getitem d k"
| "subscript _ k = Inl TypeError"

text \<open>
  \<^verbatim>\<open>x[0]\<close>: the first element of a list, the first character of a string (as a string),
  a lookup of the key \<^verbatim>\<open>0\<close> in a dictionary (never present: the keys of a decoded object
  are strings), \<^verbatim>\<open>TypeError\<close> otherwise.
\<close>

fun subscript0 :: "json \<Rightarrow> py_exc + json" where
  "subscript0 (JArr []) = Inl IndexError"
| "subscript0 (JArr (x # xs)) = Inr x"
| "subscript0 (JStr []) = Inl IndexError"
| "subscript0 (JStr (c # cs)) = Inr (JStr [c])"
| "subscript0 (JObj d) = Inl (KeyError (JInt 0))"
| "subscript0 _ = Inl TypeError"

text \<open>
  \<^verbatim>\<open>x.get(k, default)\<close>: defined on dictionaries only; any other value has no attribute
  \<^verbatim>\<open>get\<close> (\<^verbatim>\<open>AttributeError\<close>).
\<close>

fun get_method :: "json \<Rightarrow> string \<Rightarrow> json \<Rightarrow> py_exc + json" where
  "get_method (JObj d) k dflt = Inr (case map_of d k of None \<Rightarrow> dflt | Some v \<Rightarrow> v)"
| "get_method _ k dflt = Inl AttributeError"

text \<open>Sequencing of statements that may raise: the first exception ends the block.\<close>

definition andthen :: "'e + 'a \<Rightarrow> ('a \<Rightarrow> 'e + 'b) \<Rightarrow> 'e + 'b" where
  "andthen m f = (case m of Inl e \<Rightarrow> Inl e | Inr x \<Rightarrow> f x)"

section \<open>The outside world\<close>

text \<open>
  What \<^verbatim>\<open>requests.get(API_BASE_URL, params=params, timeout=5)\<close> is called with and what it
  gives back: either it raises \<^verbatim>\<open>requests.RequestException\<close> (with the text of the cause), or
  it returns a response with its \<^verbatim>\<open>status_code\<close>, its \<^verbatim>\<open>text\<close>, and the value of
  \<^verbatim>\<open>resp.json()\<close> (\<open>None\<close> when the body is not JSON and the decoder raises).
\<close>

record params =
  q :: json
  appid :: string
  units :: string

datatype http_outcome =
    RequestException string
  | Response int string "json option"

text \<open>
  The environment of the process, the network and the interpreter. The network may answer
  the same request differently at different times: \<open>requests_get w n p\<close> is the outcome of
  the request \<open>p\<close> when \<open>n\<close> requests have been issued before it. \<open>str_of w v\<close> is the text
  \<^verbatim>\<open>str(v)\<close> gives for a value that is not a string (how numbers and containers are
  rendered is the interpreter's business, not the program's).
\<close>

record world =
  getenv :: "string option"
  requests_get :: "nat \<Rightarrow> params \<Rightarrow> http_outcome"
  str_of :: "json \<Rightarrow> string"

section \<open>Weather lookup\<close>

text \<open>
  \<^verbatim>\<open>get_api_key\<close>: \<^verbatim>\<open>os.getenv\<close> gives \<^verbatim>\<open>None\<close> for an unset variable; \<^verbatim>\<open>if not api_key\<close>
  rejects \<^verbatim>\<open>None\<close> and the empty string alike.
\<close>

definition get_api_key :: "world \<Rightarrow> exn + string" where
  "get_api_key w =
     (case getenv w of
        None \<Rightarrow> Inl (WeatherError MissingCredential)
      | Some api_key \<Rightarrow>
          if api_key = [] then Inl (WeatherError MissingCredential) else Inr api_key)"

text \<open>
  The body of the \<^verbatim>\<open>try\<close> block of \<^verbatim>\<open>get_weather\<close> (lines 78 to 92), statement by
  statement and, inside the dictionary display, entry by entry in the order Python
  evaluates them.
\<close>

definition simplify :: "json \<Rightarrow> json \<Rightarrow> py_exc + dict" where
  "simplify data city =
     andthen (subscript data ''main'') (\<lambda>main.
     andthen (get_method data ''weather'' (JArr [])) (\<lambda>weather_list.
     andthen (if truthy weather_list
              then andthen (subscript0 weather_list) (\<lambda>first. subscript first ''description'')
              else Inr (JStr ''N/A'')) (\<lambda>weather_desc.
     andthen (get_method data ''wind'' (JObj [])) (\<lambda>wind.
     andthen (get_method data ''sys'' (JObj [])) (\<lambda>sys_info.
     andthen (get_method data ''name'' city) (\<lambda>name.
     andthen (get_method sys_info ''country'' (JStr [])) (\<lambda>country.
     andthen (subscript main ''temp'') (\<lambda>temp.
     andthen (subscript main ''feels_like'') (\<lambda>feels_like.
     andthen (subscript main ''humidity'') (\<lambda>humidity.
     andthen (get_method wind ''speed'' (JFloat 0)) (\<lambda>speed.
       Inr [(''city'', name),
            (''country'', country),
            (''temp'', temp),
            (''feels_like'', feels_like),
            (''description'', weather_desc),
            (''humidity'', humidity),
            (''wind_speed'', speed)])))))))))))"

text \<open>
  \<^verbatim>\<open>except (KeyError, TypeError) as e: raise WeatherError(...)\<close>: the two classes named are
  turned into a \<^verbatim>\<open>WeatherError\<close>, every other exception leaves the function as it is.
\<close>

fun except_key_type :: "py_exc \<Rightarrow> exn" where
  "except_key_type (KeyError k) = WeatherError (MalformedResponse (KeyError k))"
| "except_key_type TypeError = WeatherError (MalformedResponse TypeError)"
| "except_key_type e = Uncaught e"

text \<open>
  \<^verbatim>\<open>get_weather(city)\<close>, called when \<open>n\<close> requests have been issued before. The result comes
  with the list of the HTTP requests the call issued (none or one). \<^verbatim>\<open>resp.json()\<close> at line
  75 stands outside every \<^verbatim>\<open>try\<close>: its exception is not a \<^verbatim>\<open>WeatherError\<close>.
\<close>

definition get_weather :: "world \<Rightarrow> nat \<Rightarrow> json \<Rightarrow> (exn + dict) \<times> params list" where
  "get_weather w n city =
     (case get_api_key w of
        Inl e \<Rightarrow> (Inl e, [])
      | Inr api_key \<Rightarrow>
          (let ps = \<lparr>q = city, appid = api_key, units = ''metric''\<rparr> in
           (case requests_get w n ps of
              RequestException e \<Rightarrow> Inl (WeatherError (Network e))
            | Response status_code text body \<Rightarrow>
                if status_code = 404 then Inl (WeatherError (CityNotFound city))
                else if status_code \<noteq> 200 then Inl (WeatherError (ApiStatus status_code text))
                else (case body of
                        None \<Rightarrow> Inl (Uncaught JSONDecodeError)
                      | Some data \<Rightarrow>
                          (case simplify data city of
                             Inl e \<Rightarrow> Inl (except_key_type e)
                           | Inr simplified \<Rightarrow> Inr simplified)),
            [ps])))"

section \<open>Console and program state\<close>

text \<open>
  One constructor per \<^verbatim>\<open>print\<close> call of the source, carrying the values the call
  interpolates (numbers are not rendered to text, and the blank line that a message asks
  for with a leading or trailing \<^verbatim>\<open>\n\<close> is part of its constructor):
  \<^item> \<open>Prompt t\<close>: the prompt written by \<^verbatim>\<open>input(t)\<close>;
  \<^item> \<open>Text t\<close>: a literal line (banner, menu);
  \<^item> \<open>WeatherFor location\<close>: \<^verbatim>\<open>Weather for {location}:\<close>; \<open>Dashes n\<close>: the rule of \<open>n\<close> dashes
    under it; \<open>DescriptionLine d\<close>:
    \<^verbatim>\<open>Description : {d.title()}\<close>; \<open>TemperatureLine\<close>, \<open>FeelsLikeLine\<close>, \<open>HumidityLine\<close>,
    \<open>WindSpeedLine\<close>: the four value lines; \<open>Blank\<close>: \<^verbatim>\<open>print()\<close>;
  \<^item> \<open>SearchCancelled\<close>, \<open>AddCancelled\<close>, \<open>UpdateCancelled\<close>: the three cancellation messages;
  \<^item> \<open>ErrorLine e\<close>: \<^verbatim>\<open>Error: {e}\<close>;
  \<^item> \<open>CapacityReached\<close>: \<^verbatim>\<open>You already have 3 favourite cities. ...\<close>;
  \<^item> \<open>AlreadyFavourite c\<close>: \<^verbatim>\<open>'{c}' is already in your favourites.\<close>;
  \<^item> \<open>Added c\<close>: \<^verbatim>\<open>Added '{c}' to favourites.\<close>; \<open>Removed c\<close>: \<^verbatim>\<open>Removed '{c}' from favourites.\<close>;
  \<^item> \<open>NoFavourites\<close>, \<open>ListHeader\<close>, \<open>ListRule\<close>, \<open>ListEntry idx c\<close> (\<^verbatim>\<open>[{idx}] {c}\<close>),
    \<open>EntryError c e\<close> (\<^verbatim>\<open>Error fetching weather for '{c}': {e}\<close>): the list flow;
  \<^item> \<open>NothingToUpdate\<close>, \<open>CurrentFavourites\<close>, \<open>Numbered idx c\<close> (\<^verbatim>\<open>{idx}. {c}\<close>),
    \<open>InvalidNumber\<close> (\<^verbatim>\<open>Invalid input. Please enter a number.\<close>), \<open>OutOfRange\<close>
    (\<^verbatim>\<open>Choice out of range.\<close>): the update flow;
  \<^item> \<open>Goodbye\<close>, \<open>InvalidChoice\<close>: the menu loop; \<open>FatalError e\<close>: \<^verbatim>\<open>Fatal error: {e}\<close>.
\<close>

datatype line =
    Prompt string
  | Text string
  | Blank
  | WeatherFor json
  | Dashes nat
  | DescriptionLine string
  | TemperatureLine json
  | FeelsLikeLine json
  | HumidityLine json
  | WindSpeedLine json
  | SearchCancelled
  | AddCancelled
  | UpdateCancelled
  | ErrorLine weather_error
  | CapacityReached
  | AlreadyFavourite string
  | Added json
  | Removed json
  | NoFavourites
  | ListHeader
  | ListRule
  | ListEntry nat json
  | EntryError json weather_error
  | NothingToUpdate
  | CurrentFavourites
  | Numbered nat json
  | InvalidNumber
  | OutOfRange
  | Goodbye
  | InvalidChoice
  | FatalError weather_error

text \<open>
  The state the flows act on: the list \<^verbatim>\<open>favourites\<close> of \<^verbatim>\<open>main\<close> (shared by reference with
  every flow), the lines still to be read from standard input, everything printed so far,
  and the HTTP requests issued so far.
\<close>

record state =
  favourites :: "json list"
  stdin :: "string list"
  stdout :: "line list"
  requests :: "params list"

type_synonym 'a io = "(exn + 'a) \<times> state"

definition print :: "line \<Rightarrow> state \<Rightarrow> state" where
  "print l s = s\<lparr>stdout := stdout s @ [l]\<rparr>"

text \<open>\<^verbatim>\<open>input(prompt)\<close>: writes the prompt, reads one line; \<^verbatim>\<open>EOFError\<close> at end of input.\<close>

definition input :: "string \<Rightarrow> state \<Rightarrow> string io" where
  "input prompt s =
     (let s1 = print (Prompt prompt) s in
      case stdin s1 of
        [] \<Rightarrow> (Inl (Uncaught EOFError), s1)
      | l # ls \<Rightarrow> (Inr l, s1\<lparr>stdin := ls\<rparr>))"

text \<open>\<^verbatim>\<open>str.strip()\<close>: the white space of Python among the code points below 256.\<close>

definition is_space :: "char \<Rightarrow> bool" where
  "is_space c = ((of_char c :: nat) \<in> {9, 10, 11, 12, 13, 28, 29, 30, 31, 32, 133, 160})"

definition strip :: "string \<Rightarrow> string" where
  "strip s = rev (dropWhile is_space (rev (dropWhile is_space s)))"

text \<open>
  \<^verbatim>\<open>int(s)\<close> on a stripped string: an optional sign, then decimal digits, single
  underscores allowed between two digits; \<open>None\<close> stands for \<^verbatim>\<open>ValueError\<close>. CPython also
  raises \<^verbatim>\<open>ValueError\<close> beyond 4300 digits (\<^verbatim>\<open>sys.int_info.default_max_str_digits\<close>).
\<close>

definition is_digit :: "char \<Rightarrow> bool" where
  "is_digit c = (48 \<le> (of_char c :: nat) \<and> (of_char c :: nat) \<le> 57)"

definition digit_val :: "char \<Rightarrow> nat" where
  "digit_val c = of_char c - 48"

fun int_digits :: "nat \<Rightarrow> string \<Rightarrow> nat option" where
  "int_digits acc [] = Some acc"
| "int_digits acc [c] = (if is_digit c then Some (10 * acc + digit_val c) else None)"
| "int_digits acc (c # d # ds) =
     (if is_digit c then int_digits (10 * acc + digit_val c) (d # ds)
      else if c = CHR ''_'' \<and> is_digit d then int_digits (10 * acc + digit_val d) ds
      else None)"

definition py_int :: "string \<Rightarrow> int option" where
  "py_int s =
     (let negative = (case s of c # cs \<Rightarrow> c = CHR ''-'' | [] \<Rightarrow> False);
          body = (case s of c # cs \<Rightarrow> if c = CHR ''+'' \<or> c = CHR ''-'' then cs else s | [] \<Rightarrow> s)
      in if length (filter is_digit body) > 4300 then None
         else (case body of
                 [] \<Rightarrow> None
               | c # cs \<Rightarrow>
                   if is_digit c
                   then map_option (\<lambda>n. if negative then - int n else int n)
                          (int_digits (digit_val c) cs)
                   else None))"

text \<open>
  \<^verbatim>\<open>xs.pop(i)\<close>: a negative index counts from the end; \<^verbatim>\<open>IndexError\<close> out of range;
  otherwise the element removed and the list without it.
\<close>

definition list_pop :: "'a list \<Rightarrow> int \<Rightarrow> py_exc + ('a \<times> 'a list)" where
  "list_pop xs i =
     (let n = int (length xs); j = (if i < 0 then i + n else i) in
      if j < 0 \<or> n \<le> j then Inl IndexError
      else Inr (xs ! nat j, take (nat j) xs @ drop (Suc (nat j)) xs))"

section \<open>Rendering and the four flows\<close>

text \<open>
  \<^verbatim>\<open>location += t\<close> with a string \<open>t\<close> (line 103): on a string it binds \<^verbatim>\<open>location\<close> to a new
  string; on a list it extends the list object in place, one element per character of
  \<open>t\<close>; on every other value it raises \<^verbatim>\<open>TypeError\<close>. The result is the value of the
  object \<^verbatim>\<open>location\<close> refers to afterwards.
\<close>

fun iadd_str :: "json \<Rightarrow> string \<Rightarrow> py_exc + json" where
  "iadd_str (JStr a) t = Inr (JStr (a @ t))"
| "iadd_str (JArr xs) t = Inr (JArr (xs @ map (\<lambda>c. JStr [c]) t))"
| "iadd_str _ t = Inl TypeError"

text \<open>\<^verbatim>\<open>len(x)\<close>: defined on strings, lists and dictionaries, \<^verbatim>\<open>TypeError\<close> otherwise.\<close>

fun py_len :: "json \<Rightarrow> py_exc + nat" where
  "py_len (JStr a) = Inr (length a)"
| "py_len (JArr xs) = Inr (length xs)"
| "py_len (JObj d) = Inr (length d)"
| "py_len _ = Inl TypeError"

text \<open>\<^verbatim>\<open>f"{v}"\<close>: a string as it is, any other value as \<^verbatim>\<open>str\<close> renders it.\<close>

definition format_value :: "world \<Rightarrow> json \<Rightarrow> string" where
  "format_value w v = (case v of JStr t \<Rightarrow> t | _ \<Rightarrow> str_of w v)"

text \<open>
  The dictionary \<^verbatim>\<open>info\<close> once lines 101 to 103 have run. \<^verbatim>\<open>location\<close> is the object under
  \<^verbatim>\<open>"city"\<close>; when that object is a list, \<^verbatim>\<open>+=\<close> has changed it in place, so the dictionary
  (and whoever else holds the object) now sees the extended list. A string is never
  changed: \<^verbatim>\<open>+=\<close> made a new one.
\<close>

definition info_after_iadd :: "json \<Rightarrow> json \<Rightarrow> dict \<Rightarrow> dict" where
  "info_after_iadd city location info =
     (case city of
        JArr xs \<Rightarrow> map (\<lambda>(k, v). if k = ''city'' then (k, location) else (k, v)) info
      | _ \<Rightarrow> info)"

text \<open>
  Lines 105 to 112 of \<^verbatim>\<open>print_weather\<close>: \<^verbatim>\<open>len(location)\<close> raises \<^verbatim>\<open>TypeError\<close> on \<^verbatim>\<open>None\<close>,
  booleans and numbers; \<^verbatim>\<open>.title()\<close> exists on strings only. The lines printed before an
  exception stay printed.
\<close>

definition print_report :: "dict \<Rightarrow> json \<Rightarrow> state \<Rightarrow> unit io" where
  "print_report info location s =
     (let s1 = print (WeatherFor location) s in
     (case py_len location of
        Inl e \<Rightarrow> (Inl (Uncaught e), s1)
      | Inr n \<Rightarrow>
     (let s2 = print (Dashes (n + 12)) s1 in
     (case getitem info ''description'' of
        Inl e \<Rightarrow> (Inl (Uncaught e), s2)
      | Inr (JStr d) \<Rightarrow>
     (let s3 = print (DescriptionLine d) s2 in
     (case getitem info ''temp'' of
        Inl e \<Rightarrow> (Inl (Uncaught e), s3)
      | Inr temp \<Rightarrow>
     (let s4 = print (TemperatureLine temp) s3 in
     (case getitem info ''feels_like'' of
        Inl e \<Rightarrow> (Inl (Uncaught e), s4)
      | Inr feels_like \<Rightarrow>
     (let s5 = print (FeelsLikeLine feels_like) s4 in
     (case getitem info ''humidity'' of
        Inl e \<Rightarrow> (Inl (Uncaught e), s5)
      | Inr humidity \<Rightarrow>
     (let s6 = print (HumidityLine humidity) s5 in
     (case getitem info ''wind_speed'' of
        Inl e \<Rightarrow> (Inl (Uncaught e), s6)
      | Inr wind_speed \<Rightarrow>
          (Inr (), print Blank (print (WindSpeedLine wind_speed) s6))))))))))
      | Inr other \<Rightarrow> (Inl (Uncaught AttributeError), s2)))))"

text \<open>
  \<^verbatim>\<open>print_weather(info)\<close>. Besides what it prints, the call gives back the dictionary as it
  leaves it: the caller that shares the object under \<^verbatim>\<open>"city"\<close> sees the change made by
  \<^verbatim>\<open>+=\<close>, also when a later line of the function raises.
\<close>

definition print_weather :: "world \<Rightarrow> dict \<Rightarrow> state \<Rightarrow> unit io \<times> dict" where
  "print_weather w info s =
     (case getitem info ''city'' of
        Inl e \<Rightarrow> ((Inl (Uncaught e), s), info)
      | Inr city \<Rightarrow>
     (case getitem info ''country'' of
        Inl e \<Rightarrow> ((Inl (Uncaught e), s), info)
      | Inr country \<Rightarrow>
     (case (if truthy country then iadd_str city ('', '' @ format_value w country)
            else Inr city) of
        Inl e \<Rightarrow> ((Inl (Uncaught e), s), info)
      | Inr location \<Rightarrow>
          (print_report info location s, info_after_iadd city location info))))"

text \<open>\<^verbatim>\<open>prompt_city_name()\<close>: \<^verbatim>\<open>city or None\<close> turns the empty string into \<^verbatim>\<open>None\<close>.\<close>

definition prompt_city_name :: "state \<Rightarrow> string option io" where
  "prompt_city_name s =
     (case input ''Enter city name (or press Enter to cancel): '' s of
        (Inl e, s1) \<Rightarrow> (Inl e, s1)
      | (Inr l, s1) \<Rightarrow> (Inr (let city = strip l in if city = [] then None else Some city), s1))"

text \<open>
  A call \<^verbatim>\<open>get_weather(city)\<close> from a flow: the requests it issues are added to the log.
\<close>

definition call_get_weather :: "world \<Rightarrow> json \<Rightarrow> state \<Rightarrow> dict io" where
  "call_get_weather w city s =
     (case get_weather w (length (requests s)) city of
        (r, issued) \<Rightarrow> (r, s\<lparr>requests := requests s @ issued\<rparr>))"

definition search_city_flow :: "world \<Rightarrow> state \<Rightarrow> unit io" where
  "search_city_flow w s =
     (case prompt_city_name s of
        (Inl e, s1) \<Rightarrow> (Inl e, s1)
      | (Inr None, s1) \<Rightarrow> (Inr (), print SearchCancelled s1)
      | (Inr (Some city), s1) \<Rightarrow>
          (case call_get_weather w (JStr city) s1 of
             (Inl (WeatherError e), s2) \<Rightarrow> (Inr (), print (ErrorLine e) s2)
           | (Inl (Uncaught e), s2) \<Rightarrow> (Inl (Uncaught e), s2)
           | (Inr info, s2) \<Rightarrow> fst (print_weather w info s2)))"

text \<open>
  Lines 149 to 161 of \<^verbatim>\<open>add_favourite_flow\<close> and lines 212 to 223 of
  \<^verbatim>\<open>update_favourites_flow\<close> are the same statements: the membership test on the name
  as typed, the lookup, and the \<^verbatim>\<open>append\<close> of the name the API returned.
\<close>

definition validate_and_append :: "world \<Rightarrow> string \<Rightarrow> state \<Rightarrow> unit io" where
  "validate_and_append w city s =
     (if JStr city \<in> set (favourites s) then (Inr (), print (AlreadyFavourite city) s)
      else
        (case call_get_weather w (JStr city) s of
           (Inl (WeatherError e), s1) \<Rightarrow> (Inr (), print (ErrorLine e) s1)
         | (Inl (Uncaught e), s1) \<Rightarrow> (Inl (Uncaught e), s1)
         | (Inr info, s1) \<Rightarrow>
             (case getitem info ''city'' of
                Inl e \<Rightarrow> (Inl (Uncaught e), s1)
              | Inr name \<Rightarrow>
                  (Inr (), print (Added name) (s1\<lparr>favourites := favourites s1 @ [name]\<rparr>)))))"

definition add_favourite_flow :: "world \<Rightarrow> state \<Rightarrow> unit io" where
  "add_favourite_flow w s =
     (if length (favourites s) \<ge> 3 then (Inr (), print CapacityReached s)
      else
        (case prompt_city_name s of
           (Inl e, s1) \<Rightarrow> (Inl e, s1)
         | (Inr None, s1) \<Rightarrow> (Inr (), print AddCancelled s1)
         | (Inr (Some city), s1) \<Rightarrow> validate_and_append w city s1))"

text \<open>
  Object identity in the list flow. \<^verbatim>\<open>data.get("name", city)\<close> (line 85) returns the object
  passed as \<^verbatim>\<open>city\<close> itself when the answer has no \<^verbatim>\<open>name\<close>; a name carried by the answer is
  a new object. \<open>city_is_argument w n city\<close> says that the record returned by
  \<^verbatim>\<open>get_weather(city)\<close>, served as request number \<open>n\<close>, holds the argument object under
  \<^verbatim>\<open>"city"\<close>.
\<close>

definition city_is_argument :: "world \<Rightarrow> nat \<Rightarrow> json \<Rightarrow> bool" where
  "city_is_argument w n city =
     (case get_api_key w of
        Inl e \<Rightarrow> False
      | Inr api_key \<Rightarrow>
          (case requests_get w n \<lparr>q = city, appid = api_key, units = ''metric''\<rparr> of
             RequestException e \<Rightarrow> False
           | Response status_code text body \<Rightarrow>
               (case body of
                  Some (JObj d) \<Rightarrow> map_of d ''name'' = None
                | _ \<Rightarrow> False)))"

text \<open>
  The stored object at position \<open>i\<close> after \<^verbatim>\<open>print_weather\<close> has run on a record that holds
  it under \<^verbatim>\<open>"city"\<close>: a list was extended in place, so the store holds the extended list;
  no other kind of value can be changed in place by \<^verbatim>\<open>print_weather\<close>. Every entry of the
  store is an object of its own (a name typed by the user or decoded from an answer), so
  no other entry changes.
\<close>

definition store_city :: "nat \<Rightarrow> dict \<Rightarrow> state \<Rightarrow> state" where
  "store_city i info s =
     (case map_of info ''city'' of
        Some (JArr ys) \<Rightarrow> s\<lparr>favourites := (favourites s)[i := JArr ys]\<rparr>
      | _ \<Rightarrow> s)"

text \<open>
  The loop of \<^verbatim>\<open>list_favourites_flow\<close> over \<^verbatim>\<open>enumerate(favourites, start=1)\<close>: \<^verbatim>\<open>city\<close> is the
  stored object at position \<open>idx - 1\<close>. The \<^verbatim>\<open>try\<close> encloses the lookup and the rendering
  and catches \<^verbatim>\<open>WeatherError\<close> only.
\<close>

fun list_loop :: "world \<Rightarrow> nat \<Rightarrow> json list \<Rightarrow> state \<Rightarrow> unit io" where
  "list_loop w idx [] s = (Inr (), s)"
| "list_loop w idx (city # rest) s =
     (let s1 = print (ListEntry idx city) s;
          same = city_is_argument w (length (requests s1)) city in
      case call_get_weather w city s1 of
        (Inl (WeatherError e), s2) \<Rightarrow> list_loop w (Suc idx) rest (print (EntryError city e) s2)
      | (Inl (Uncaught e), s2) \<Rightarrow> (Inl (Uncaught e), s2)
      | (Inr info, s2) \<Rightarrow>
          (case print_weather w info s2 of
             ((r, s3), info') \<Rightarrow>
               (let s4 = (if same then store_city (idx - 1) info' s3 else s3) in
                case r of
                  Inl (WeatherError e) \<Rightarrow>
                    list_loop w (Suc idx) rest (print (EntryError city e) s4)
                | Inl (Uncaught e) \<Rightarrow> (Inl (Uncaught e), s4)
                | Inr u \<Rightarrow> list_loop w (Suc idx) rest s4)))"

definition list_favourites_flow :: "world \<Rightarrow> state \<Rightarrow> unit io" where
  "list_favourites_flow w s =
     (if favourites s = [] then (Inr (), print NoFavourites s)
      else list_loop w 1 (favourites s) (print ListRule (print ListHeader s)))"

text \<open>The numbered display at the start of \<^verbatim>\<open>update_favourites_flow\<close>.\<close>

fun print_numbered :: "nat \<Rightarrow> json list \<Rightarrow> state \<Rightarrow> state" where
  "print_numbered idx [] s = s"
| "print_numbered idx (city # rest) s = print_numbered (Suc idx) rest (print (Numbered idx city) s)"

definition update_favourites_flow :: "world \<Rightarrow> state \<Rightarrow> unit io" where
  "update_favourites_flow w s =
     (if favourites s = [] then (Inr (), print NothingToUpdate s)
      else
        (case input ''Enter the number of the city to remove: ''
                (print_numbered 1 (favourites s) (print CurrentFavourites s)) of
           (Inl e, s1) \<Rightarrow> (Inl e, s1)
         | (Inr choice_str, s1) \<Rightarrow>
             (case py_int (strip choice_str) of
                None \<Rightarrow> (Inr (), print InvalidNumber s1)
              | Some choice \<Rightarrow>
                  if \<not> (1 \<le> choice \<and> choice \<le> int (length (favourites s1)))
                  then (Inr (), print OutOfRange s1)
                  else
                    (case list_pop (favourites s1) (choice - 1) of
                       Inl e \<Rightarrow> (Inl (Uncaught e), s1)
                     | Inr (removed_city, remaining) \<Rightarrow>
                         (case prompt_city_name
                                 (print (Removed removed_city) (s1\<lparr>favourites := remaining\<rparr>)) of
                            (Inl e, s2) \<Rightarrow> (Inl e, s2)
                          | (Inr None, s2) \<Rightarrow> (Inr (), print UpdateCancelled s2)
                          | (Inr (Some city), s2) \<Rightarrow> validate_and_append w city s2)))))"

section \<open>The menu loop and the script\<close>

definition print_menu :: "state \<Rightarrow> state" where
  "print_menu s =
     print (Text ''5. Exit'')
    (print (Text ''4. Update favourite cities (remove & add)'')
    (print (Text ''3. List favourite cities and their weather'')
    (print (Text ''2. Add a city to favourites'')
    (print (Text ''1. Search weather for a city'')
    (print (Text ''-----------'')
    (print (Text ''Weather CLI'') s))))))"

text \<open>
  One pass through the body of \<^verbatim>\<open>while True\<close> in \<^verbatim>\<open>main\<close>. The result says whether the
  loop goes on (\<open>True\<close>) or \<^verbatim>\<open>break\<close> was reached (\<open>False\<close>).
\<close>

definition after_flow :: "unit io \<Rightarrow> bool io" where
  "after_flow r = (case r of (Inl e, s) \<Rightarrow> (Inl e, s) | (Inr u, s) \<Rightarrow> (Inr True, s))"

definition menu_iteration :: "world \<Rightarrow> state \<Rightarrow> bool io" where
  "menu_iteration w s =
     (case input ''Choose an option (1-5): '' (print_menu s) of
        (Inl e, s1) \<Rightarrow> (Inl e, s1)
      | (Inr l, s1) \<Rightarrow>
          (let choice = strip l; s2 = print Blank s1 in
           if choice = ''1'' then after_flow (search_city_flow w s2)
           else if choice = ''2'' then after_flow (add_favourite_flow w s2)
           else if choice = ''3'' then after_flow (list_favourites_flow w s2)
           else if choice = ''4'' then after_flow (update_favourites_flow w s2)
           else if choice = ''5'' then (Inr False, print Goodbye s2)
           else (Inr True, print InvalidChoice s2)))"

subsection \<open>No flow gives lines back to standard input\<close>

lemma print_fields [simp]:
  "favourites (print l s) = favourites s"
  "stdin (print l s) = stdin s"
  "requests (print l s) = requests s"
  "stdout (print l s) = stdout s @ [l]"
  by (simp_all add: print_def)

lemma input_frame:
  assumes "input p s = (r, s')"
  shows "favourites s' = favourites s" and "requests s' = requests s"
    and "length (stdin s') \<le> length (stdin s)"
  using assms by (auto simp: input_def Let_def split: list.splits)

lemma input_consumes:
  "input p s = (Inr l, s') \<Longrightarrow> stdin s = l # stdin s'"
  by (auto simp: input_def Let_def split: list.splits)

lemma print_report_frame [simp]:
  "favourites (snd (print_report info location s)) = favourites s"
  "stdin (snd (print_report info location s)) = stdin s"
  "requests (snd (print_report info location s)) = requests s"
  by (simp_all add: print_report_def Let_def split: sum.splits json.splits)

lemma print_weather_frame [simp]:
  "favourites (snd (fst (print_weather w info s))) = favourites s"
  "stdin (snd (fst (print_weather w info s))) = stdin s"
  "requests (snd (fst (print_weather w info s))) = requests s"
  by (simp_all add: print_weather_def split: sum.splits)

lemma store_city_fields [simp]:
  "stdin (store_city i info s) = stdin s"
  "stdout (store_city i info s) = stdout s"
  "requests (store_city i info s) = requests s"
  "length (favourites (store_city i info s)) = length (favourites s)"
  by (simp_all add: store_city_def split: option.splits json.splits)

lemma call_get_weather_frame [simp]:
  "favourites (snd (call_get_weather w city s)) = favourites s"
  "stdin (snd (call_get_weather w city s)) = stdin s"
  "stdout (snd (call_get_weather w city s)) = stdout s"
  by (simp_all add: call_get_weather_def split: prod.splits)

lemma prompt_city_name_frame:
  assumes "prompt_city_name s = (r, s')"
  shows "favourites s' = favourites s" and "requests s' = requests s"
    and "length (stdin s') \<le> length (stdin s)"
  using assms
  by (auto simp: prompt_city_name_def split: prod.splits sum.splits dest: input_frame)

lemma validate_and_append_stdin [simp]:
  "stdin (snd (validate_and_append w city s)) = stdin s"
proof -
  obtain r s1 where c: "call_get_weather w (JStr city) s = (r, s1)"
    by (cases "call_get_weather w (JStr city) s")
  have "stdin s1 = stdin s"
    using call_get_weather_frame(2) [of w "JStr city" s] c by simp
  then show ?thesis
    by (simp add: validate_and_append_def c split: sum.splits exn.splits)
qed

lemma search_city_flow_stdin:
  "length (stdin (snd (search_city_flow w s))) \<le> length (stdin s)"
proof -
  obtain r s1 where p: "prompt_city_name s = (r, s1)"
    by (cases "prompt_city_name s")
  have le: "length (stdin s1) \<le> length (stdin s)"
    using prompt_city_name_frame(3) [OF p] .
  show ?thesis
  proof (cases r)
    case (Inl e)
    then show ?thesis using p le by (simp add: search_city_flow_def)
  next
    case (Inr c)
    show ?thesis
    proof (cases c)
      case None
      then show ?thesis using p le Inr by (simp add: search_city_flow_def)
    next
      case (Some city)
      obtain r2 s2 where g: "call_get_weather w (JStr city) s1 = (r2, s2)"
        by (cases "call_get_weather w (JStr city) s1")
      have "stdin s2 = stdin s1"
        using call_get_weather_frame(2) [of w "JStr city" s1] g by simp
      then show ?thesis using p le Inr Some g
        by (simp add: search_city_flow_def split: sum.splits exn.splits)
    qed
  qed
qed

lemma add_favourite_flow_stdin:
  "length (stdin (snd (add_favourite_flow w s))) \<le> length (stdin s)"
proof -
  obtain r s1 where p: "prompt_city_name s = (r, s1)"
    by (cases "prompt_city_name s")
  have le: "length (stdin s1) \<le> length (stdin s)"
    using prompt_city_name_frame(3) [OF p] .
  then show ?thesis using p
    by (simp add: add_favourite_flow_def split: sum.splits option.splits)
qed

text \<open>What every step of the list loop preserves, the loop preserves.\<close>

lemma list_loop_preserves:
  assumes printed: "\<And>l t. P t \<Longrightarrow> P (print l t)"
    and called: "\<And>c t. P t \<Longrightarrow> P (snd (call_get_weather w c t))"
    and rendered: "\<And>info t. P t \<Longrightarrow> P (snd (fst (print_weather w info t)))"
    and stored: "\<And>i info t. P t \<Longrightarrow> P (store_city i info t)"
    and start: "P s"
  shows "P (snd (list_loop w idx cs s))"
  using start
proof (induction cs arbitrary: idx s)
  case Nil
  then show ?case by simp
next
  case (Cons city rest)
  let ?s1 = "print (ListEntry idx city) s"
  obtain r s2 where g: "call_get_weather w city ?s1 = (r, s2)"
    by (cases "call_get_weather w city ?s1")
  have s2: "P s2"
    using called [OF printed [OF Cons.prems], of city "ListEntry idx city"] g by simp
  show ?case
  proof (cases r)
    case (Inl x)
    show ?thesis
    proof (cases x)
      case (WeatherError e)
      from Cons.IH [OF printed [OF s2]] show ?thesis
        by (simp add: g Inl WeatherError Let_def)
    next
      case (Uncaught e)
      with s2 show ?thesis by (simp add: g Inl Let_def)
    qed
  next
    case (Inr info)
    obtain r3 s3 info' where pw: "print_weather w info s2 = ((r3, s3), info')"
      by (cases "print_weather w info s2") auto
    have s3: "P s3"
      using rendered [OF s2, of info] pw by simp
    let ?s4 = "if city_is_argument w (length (requests ?s1)) city
               then store_city (idx - 1) info' s3 else s3"
    have s4: "P ?s4"
      using s3 stored by simp
    show ?thesis
    proof (cases r3)
      case inner: (Inl x)
      show ?thesis
      proof (cases x)
        case (WeatherError e)
        from Cons.IH [OF printed [OF s4]] show ?thesis
          by (simp add: g Inr pw inner WeatherError Let_def)
      next
        case (Uncaught e)
        with s4 show ?thesis by (simp add: g Inr pw inner Let_def)
      qed
    next
      case inner: (Inr u)
      from Cons.IH [OF s4] show ?thesis
        by (simp add: g Inr pw inner Let_def)
    qed
  qed
qed

lemma list_loop_stdin [simp]:
  "stdin (snd (list_loop w idx cs s)) = stdin s"
  by (rule list_loop_preserves [where P = "\<lambda>t. stdin t = stdin s"]) simp_all

lemma list_favourites_flow_stdin:
  "length (stdin (snd (list_favourites_flow w s))) \<le> length (stdin s)"
  by (simp add: list_favourites_flow_def)

lemma print_numbered_fields [simp]:
  "favourites (print_numbered idx cs s) = favourites s"
  "stdin (print_numbered idx cs s) = stdin s"
  "requests (print_numbered idx cs s) = requests s"
  by (induction cs arbitrary: idx s) simp_all

lemma replacement_stdin:
  "length (stdin (snd (case prompt_city_name t of
                         (Inl e, s2) \<Rightarrow> (Inl e, s2)
                       | (Inr None, s2) \<Rightarrow> (Inr (), print UpdateCancelled s2)
                       | (Inr (Some city), s2) \<Rightarrow> validate_and_append w city s2)))
   \<le> length (stdin t)"
proof -
  obtain r s2 where p: "prompt_city_name t = (r, s2)"
    by (cases "prompt_city_name t")
  have "length (stdin s2) \<le> length (stdin t)"
    using prompt_city_name_frame(3) [OF p] .
  then show ?thesis
    by (simp add: p split: sum.splits option.splits)
qed

lemma update_favourites_flow_stdin:
  "length (stdin (snd (update_favourites_flow w s))) \<le> length (stdin s)"
proof (cases "favourites s = []")
  case True
  then show ?thesis by (simp add: update_favourites_flow_def)
next
  case False
  let ?s0 = "print_numbered 1 (favourites s) (print CurrentFavourites s)"
  obtain r s1 where i: "input ''Enter the number of the city to remove: '' ?s0 = (r, s1)"
    by (cases "input ''Enter the number of the city to remove: '' ?s0")
  have le1: "length (stdin s1) \<le> length (stdin s)"
    using input_frame(3) [OF i] by simp
  show ?thesis
  proof (cases r)
    case (Inl e)
    then show ?thesis using False i le1 by (simp add: update_favourites_flow_def)
  next
    case (Inr choice_str)
    show ?thesis
    proof (cases "py_int (strip choice_str)")
      case None
      then show ?thesis using False i le1 Inr by (simp add: update_favourites_flow_def)
    next
      case (Some choice)
      show ?thesis
      proof (cases "list_pop (favourites s1) (choice - 1)")
        case (Inl e)
        then show ?thesis using False i le1 Inr Some
          by (simp add: update_favourites_flow_def)
      next
        case popped: (Inr p)
        obtain removed remaining where pr: "p = (removed, remaining)"
          by (cases p)
        have "stdin (print (Removed removed) (s1\<lparr>favourites := remaining\<rparr>)) = stdin s1"
          by simp
        then show ?thesis
          using False i le1 Inr Some popped pr
            replacement_stdin [where t = "print (Removed removed) (s1\<lparr>favourites := remaining\<rparr>)"
              and w = w]
          by (simp add: update_favourites_flow_def)
      qed
    qed
  qed
qed

lemma menu_iteration_consumes:
  assumes "menu_iteration w s = (Inr True, s')"
  shows "length (stdin s') < length (stdin s)"
proof -
  obtain r s1 where i: "input ''Choose an option (1-5): '' (print_menu s) = (r, s1)"
    by (cases "input ''Choose an option (1-5): '' (print_menu s)")
  from assms i obtain l where r: "r = Inr l"
    by (cases r) (auto simp: menu_iteration_def)
  have "stdin (print_menu s) = l # stdin s1"
    using input_consumes i r by blast
  then have lt: "length (stdin s1) < length (stdin s)"
    by (simp add: print_menu_def)
  have flows:
    "length (stdin (snd (search_city_flow w (print Blank s1)))) \<le> length (stdin s1)"
    "length (stdin (snd (add_favourite_flow w (print Blank s1)))) \<le> length (stdin s1)"
    "length (stdin (snd (list_favourites_flow w (print Blank s1)))) \<le> length (stdin s1)"
    "length (stdin (snd (update_favourites_flow w (print Blank s1)))) \<le> length (stdin s1)"
    using search_city_flow_stdin [of w "print Blank s1"]
      add_favourite_flow_stdin [of w "print Blank s1"]
      list_favourites_flow_stdin [of w "print Blank s1"]
      update_favourites_flow_stdin [of w "print Blank s1"]
    by simp_all
  show ?thesis
    using assms i r lt flows
    by (auto simp: menu_iteration_def after_flow_def Let_def
        split: if_splits prod.splits sum.splits)
qed

text \<open>
  The loop \<^verbatim>\<open>while True\<close> of \<^verbatim>\<open>main\<close>: it ends at \<^verbatim>\<open>break\<close> or at an exception leaving a
  flow; every pass reads at least the menu choice, so on a finite input it ends.
\<close>

function main_loop :: "world \<Rightarrow> state \<Rightarrow> unit io" where
  "main_loop w s =
     (case menu_iteration w s of
        (Inl e, s') \<Rightarrow> (Inl e, s')
      | (Inr again, s') \<Rightarrow> if again then main_loop w s' else (Inr (), s'))"
  by pat_completeness auto
termination
  by (relation "measure (\<lambda>(w, s). length (stdin s))") (auto dest: menu_iteration_consumes [OF sym])

declare main_loop.simps [simp del]

text \<open>
  \<^verbatim>\<open>main()\<close> started on the lines \<open>typed\<close>, and the block under
  \<^verbatim>\<open>if __name__ == "__main__"\<close>, which gives the exit status of the process: 0 when
  \<^verbatim>\<open>main\<close> returns, 1 after \<^verbatim>\<open>sys.exit(1)\<close> in the handler of \<^verbatim>\<open>WeatherError\<close>, 1 when
  the interpreter ends on any other exception.
\<close>

definition main :: "world \<Rightarrow> string list \<Rightarrow> unit io" where
  "main w typed =
     main_loop w
       (print (Text ''Make sure your API key is set in the OPENWEATHER_API_KEY environment variable.'')
       (print (Text ''Welcome to the OpenWeather CLI app!'')
          \<lparr>favourites = [], stdin = typed, stdout = [], requests = []\<rparr>))"

definition script :: "world \<Rightarrow> string list \<Rightarrow> int \<times> state" where
  "script w typed =
     (case main w typed of
        (Inr u, s) \<Rightarrow> (0, s)
      | (Inl (WeatherError e), s) \<Rightarrow> (1, print (FatalError e) s)
      | (Inl (Uncaught e), s) \<Rightarrow> (1, s))"

section \<open>Example inputs\<close>

text \<open>
  Responses of the API used as concrete inputs below: a complete answer for Paris; an
  answer with the \<^verbatim>\<open>main\<close> section only; an answer whose first weather condition has an
  empty description; an answer without \<^verbatim>\<open>main.temp\<close> whose \<^verbatim>\<open>sys\<close> member is \<^verbatim>\<open>null\<close>. The
  world \<open>answering body\<close> has the API key set and answers every request with status 200
  and that body. No run below asks for the text of a value that is not a string; the
  \<open>str_of\<close> of the examples is never consulted and gives the empty text.
\<close>

definition paris_body :: json where
  "paris_body =
     JObj [(''name'', JStr ''Paris''),
           (''sys'', JObj [(''country'', JStr ''FR'')]),
           (''main'', JObj [(''temp'', JFloat 18.5), (''feels_like'', JFloat 17.9),
                            (''humidity'', JInt 60)]),
           (''weather'', JArr [JObj [(''description'', JStr ''clear sky'')]]),
           (''wind'', JObj [(''speed'', JFloat 3.6)])]"

definition bare_body :: json where
  "bare_body =
     JObj [(''main'', JObj [(''temp'', JFloat 18.5), (''feels_like'', JFloat 17.9),
                            (''humidity'', JInt 60)])]"

definition empty_description_body :: json where
  "empty_description_body =
     JObj [(''name'', JStr ''Paris''),
           (''main'', JObj [(''temp'', JFloat 18.5), (''feels_like'', JFloat 17.9),
                            (''humidity'', JInt 60)]),
           (''weather'', JArr [JObj [(''description'', JStr [])]])]"

definition null_sys_body :: json where
  "null_sys_body =
     JObj [(''name'', JStr ''Paris''),
           (''sys'', JNull),
           (''main'', JObj [(''feels_like'', JFloat 17.9), (''humidity'', JInt 60)])]"

definition answering :: "json \<Rightarrow> world" where
  "answering body =
     \<lparr>getenv = Some ''key'', requests_get = (\<lambda>n p. Response 200 [] (Some body)),
      str_of = (\<lambda>v. [])\<rparr>"

text \<open>
  A world whose API answers every request with status 404, and a state with the two
  favourites Paris and Tokyo on which the lines \<open>typed\<close> are still to be read.
\<close>

definition not_found_world :: world where
  "not_found_world =
     \<lparr>getenv = Some ''key'', requests_get = (\<lambda>n p. Response 404 ''city not found'' None),
      str_of = (\<lambda>v. [])\<rparr>"

definition two_favourites :: "string list \<Rightarrow> state" where
  "two_favourites typed =
     \<lparr>favourites = [JStr ''Paris'', JStr ''Tokyo''], stdin = typed, stdout = [], requests = []\<rparr>"

text \<open>
  A world in which the credential variable is unset, and a world whose first answer is
  the sign-in page of a network portal (status 200, not JSON) and whose later answers
  are the complete answer for Paris.
\<close>

definition no_key_world :: world where
  "no_key_world =
     \<lparr>getenv = None, requests_get = (\<lambda>n p. Response 200 [] (Some paris_body)),
      str_of = (\<lambda>v. [])\<rparr>"

definition portal_first_world :: world where
  "portal_first_world =
     \<lparr>getenv = Some ''key'',
      requests_get = (\<lambda>n p. if n = 0 then Response 200 ''<html>Sign in to the network</html>'' None
                             else Response 200 [] (Some paris_body)),
      str_of = (\<lambda>v. [])\<rparr>"

text \<open>An answer that has a country but no name.\<close>

definition nameless_body :: json where
  "nameless_body =
     JObj [(''sys'', JObj [(''country'', JStr ''FR'')]),
           (''main'', JObj [(''temp'', JFloat 18.5), (''feels_like'', JFloat 17.9),
                            (''humidity'', JInt 60)])]"

text \<open>An answer with the required fields whose first weather condition has no description.\<close>

definition no_description_body :: json where
  "no_description_body =
     JObj [(''name'', JStr ''Paris''),
           (''main'', JObj [(''temp'', JFloat 18.5), (''feels_like'', JFloat 17.9),
                            (''humidity'', JInt 60)]),
           (''weather'', JArr [JObj []])]"

section \<open>Properties of the weather lookup\<close>

subsection \<open>What a successful lookup went through\<close>

lemma andthenE:
  assumes "andthen m f = Inr y"
  obtains x where "m = Inr x" and "f x = Inr y"
  using assms by (cases m) (simp_all add: andthen_def)

lemma get_weather_Inr:
  assumes "fst (get_weather w n city) = Inr r"
  shows "\<exists>api_key text data.
           getenv w = Some api_key \<and> api_key \<noteq> []
         \<and> requests_get w n \<lparr>q = city, appid = api_key, units = ''metric''\<rparr>
              = Response 200 text (Some data)
         \<and> simplify data city = Inr r"
  using assms
  by (auto simp: get_weather_def get_api_key_def Let_def
      split: option.splits if_splits http_outcome.splits sum.splits)

lemma simplify_Inr:
  assumes "simplify data city = Inr r"
  shows "\<exists>main weather_list weather_desc wind sys_info name country temp feels_like humidity speed.
           subscript data ''main'' = Inr main
         \<and> get_method data ''weather'' (JArr []) = Inr weather_list
         \<and> (if truthy weather_list
             then andthen (subscript0 weather_list) (\<lambda>first. subscript first ''description'')
             else Inr (JStr ''N/A'')) = Inr weather_desc
         \<and> get_method data ''wind'' (JObj []) = Inr wind
         \<and> get_method data ''sys'' (JObj []) = Inr sys_info
         \<and> get_method data ''name'' city = Inr name
         \<and> get_method sys_info ''country'' (JStr []) = Inr country
         \<and> subscript main ''temp'' = Inr temp
         \<and> subscript main ''feels_like'' = Inr feels_like
         \<and> subscript main ''humidity'' = Inr humidity
         \<and> get_method wind ''speed'' (JFloat 0) = Inr speed
         \<and> r = [(''city'', name), (''country'', country), (''temp'', temp),
                 (''feels_like'', feels_like), (''description'', weather_desc),
                 (''humidity'', humidity), (''wind_speed'', speed)]"
  using assms unfolding simplify_def
  apply (elim andthenE)
  apply (intro exI conjI)
  apply (assumption | simp)+
  done

subsection \<open>The credential\<close>

text \<open>With the variable unset, the lookup raises before any request is issued.\<close>

lemma get_weather_without_key:
  assumes "getenv w = None"
  shows "get_weather w n city = (Inl (WeatherError MissingCredential), [])"
  using assms by (simp add: get_weather_def get_api_key_def)

text \<open>
  C10. When the credential variable is set to the empty string, \<^verbatim>\<open>get_api_key\<close> raises the
  same missing-credential error as when the variable is unset, and \<^verbatim>\<open>get_weather\<close> raises
  it without issuing any request.
\<close>

theorem empty_key_is_missing_key:
  "get_api_key (w\<lparr>getenv := Some []\<rparr>) = Inl (WeatherError MissingCredential)
   \<and> get_api_key (w\<lparr>getenv := Some []\<rparr>) = get_api_key (w\<lparr>getenv := None\<rparr>)
   \<and> get_weather (w\<lparr>getenv := Some []\<rparr>) n city = (Inl (WeatherError MissingCredential), [])"
  by (simp add: get_api_key_def get_weather_def)

subsection \<open>Classification of the outcome\<close>

text \<open>
  What \<^verbatim>\<open>get_weather\<close> does with each outcome of the request, once the key is set: a network
  failure, status 404 and any other status but 200 become the three \<^verbatim>\<open>WeatherError\<close>s in
  that order, whatever the body holds.
\<close>

lemma get_weather_network_failure:
  assumes "getenv w = Some api_key" and "api_key \<noteq> []"
    and "requests_get w n \<lparr>q = city, appid = api_key, units = ''metric''\<rparr> = RequestException cause"
  shows "fst (get_weather w n city) = Inl (WeatherError (Network cause))"
  using assms by (simp add: get_weather_def get_api_key_def)

lemma get_weather_status_404:
  assumes "getenv w = Some api_key" and "api_key \<noteq> []"
    and "requests_get w n \<lparr>q = city, appid = api_key, units = ''metric''\<rparr> = Response 404 resp_text body"
  shows "fst (get_weather w n city) = Inl (WeatherError (CityNotFound city))"
  using assms by (simp add: get_weather_def get_api_key_def)

lemma get_weather_other_status:
  assumes "getenv w = Some api_key" and "api_key \<noteq> []"
    and "requests_get w n \<lparr>q = city, appid = api_key, units = ''metric''\<rparr>
           = Response status_code resp_text body"
    and "status_code \<noteq> 404" and "status_code \<noteq> 200"
  shows "fst (get_weather w n city) = Inl (WeatherError (ApiStatus status_code resp_text))"
  using assms by (simp add: get_weather_def get_api_key_def)

text \<open>
  A record is built from a body only if \<^verbatim>\<open>main.temp\<close>, \<^verbatim>\<open>main.feels_like\<close> and
  \<^verbatim>\<open>main.humidity\<close> are all there.
\<close>

lemma get_weather_needs_required_fields:
  assumes "fst (get_weather w n city) = Inr r"
  shows "\<exists>api_key resp_text data main temp feels_like humidity.
           requests_get w n \<lparr>q = city, appid = api_key, units = ''metric''\<rparr>
             = Response 200 resp_text (Some data)
         \<and> subscript data ''main'' = Inr main
         \<and> subscript main ''temp'' = Inr temp
         \<and> subscript main ''feels_like'' = Inr feels_like
         \<and> subscript main ''humidity'' = Inr humidity"
proof -
  from get_weather_Inr [OF assms] obtain api_key resp_text data where
    g: "requests_get w n \<lparr>q = city, appid = api_key, units = ''metric''\<rparr>
          = Response 200 resp_text (Some data)" and
    s: "simplify data city = Inr r"
    by blast
  from simplify_Inr [OF s] g show ?thesis by blast
qed

text \<open>
  Where the fourth step holds: a status 200 body that is not a JSON object, or an object
  that lacks one of the three required fields while its \<^verbatim>\<open>sys\<close> member is absent or an
  object, raises the \<^verbatim>\<open>WeatherError\<close> of a malformed response.
\<close>

lemma non_object_body_is_malformed_response:
  assumes "getenv w = Some api_key" and "api_key \<noteq> []"
    and "requests_get w n \<lparr>q = city, appid = api_key, units = ''metric''\<rparr>
           = Response 200 resp_text (Some data)"
    and "\<forall>d. data \<noteq> JObj d"
  shows "fst (get_weather w n city) = Inl (WeatherError (MalformedResponse TypeError))"
proof -
  have "simplify data city = Inl TypeError"
    using assms(4) by (cases data) (simp_all add: simplify_def andthen_def)
  then show ?thesis
    using assms(1-3) by (simp add: get_weather_def get_api_key_def)
qed

lemma subscript_raises:
  "subscript x k = Inl e \<Longrightarrow> e = TypeError \<or> e = KeyError (JStr k)"
  by (cases x) (auto simp: getitem_def split: option.splits)

lemma subscript0_truthy_raises:
  "truthy x \<Longrightarrow> subscript0 x = Inl e \<Longrightarrow> e = TypeError \<or> e = KeyError (JInt 0)"
  by (induction x rule: subscript0.induct) auto

lemma except_key_type_malformed:
  "e = TypeError \<or> e = KeyError k \<Longrightarrow> except_key_type e = WeatherError (MalformedResponse e)"
  by auto

lemma simplify_missing_field:
  assumes sys: "map_of d ''sys'' = None \<or> (\<exists>sd. map_of d ''sys'' = Some (JObj sd))"
    and missing: "\<not> (\<exists>m t f h. map_of d ''main'' = Some (JObj m) \<and> map_of m ''temp'' = Some t
                      \<and> map_of m ''feels_like'' = Some f \<and> map_of m ''humidity'' = Some h)"
  shows "\<exists>e. simplify (JObj d) city = Inl e \<and> (e = TypeError \<or> (\<exists>k. e = KeyError k))"
proof (cases "map_of d ''main''")
  case None
  then show ?thesis by (simp add: simplify_def andthen_def getitem_def)
next
  case (Some main)
  let ?wl = "case map_of d ''weather'' of None \<Rightarrow> JArr [] | Some v \<Rightarrow> v"
  let ?desc = "if truthy ?wl
               then andthen (subscript0 ?wl) (\<lambda>first. subscript first ''description'')
               else Inr (JStr ''N/A'')"
  show ?thesis
  proof (cases ?desc)
    case (Inl e)
    then have "e = TypeError \<or> (\<exists>k. e = KeyError k)"
      by (auto simp: andthen_def split: if_splits sum.splits
          dest: subscript_raises subscript0_truthy_raises)
    then show ?thesis
      using Some Inl by (simp add: simplify_def andthen_def getitem_def)
  next
    case (Inr weather_desc)
    obtain country where c: "get_method (case map_of d ''sys'' of None \<Rightarrow> JObj [] | Some v \<Rightarrow> v)
                               ''country'' (JStr []) = Inr country"
      using sys by (auto split: option.splits)
    have "\<exists>e. andthen (subscript main ''temp'') (\<lambda>temp.
               andthen (subscript main ''feels_like'') (\<lambda>feels_like.
               andthen (subscript main ''humidity'') (\<lambda>humidity. (Inr (temp, feels_like, humidity) :: py_exc + json \<times> json \<times> json)))) = Inl e
             \<and> (e = TypeError \<or> (\<exists>k. e = KeyError k))"
    proof (cases main)
      case (JObj m)
      with missing Some show ?thesis
        by (auto simp: andthen_def getitem_def split: option.splits)
    qed (simp_all add: andthen_def)
    then obtain e where
      "andthen (subscript main ''temp'') (\<lambda>temp.
               andthen (subscript main ''feels_like'') (\<lambda>feels_like.
               andthen (subscript main ''humidity'') (\<lambda>humidity. (Inr (temp, feels_like, humidity) :: py_exc + json \<times> json \<times> json)))) = Inl e"
      and e: "e = TypeError \<or> (\<exists>k. e = KeyError k)"
      by blast
    then have "simplify (JObj d) city = Inl e"
      using Some Inr c
      by (auto simp: simplify_def andthen_def getitem_def split: sum.splits)
    with e show ?thesis by blast
  qed
qed

lemma missing_field_is_malformed_response:
  assumes "getenv w = Some api_key" and "api_key \<noteq> []"
    and "requests_get w n \<lparr>q = city, appid = api_key, units = ''metric''\<rparr>
           = Response 200 resp_text (Some (JObj d))"
    and "map_of d ''sys'' = None \<or> (\<exists>sd. map_of d ''sys'' = Some (JObj sd))"
    and "\<not> (\<exists>m t f h. map_of d ''main'' = Some (JObj m) \<and> map_of m ''temp'' = Some t
                      \<and> map_of m ''feels_like'' = Some f \<and> map_of m ''humidity'' = Some h)"
  shows "\<exists>e. fst (get_weather w n city) = Inl (WeatherError (MalformedResponse e))"
proof -
  from simplify_missing_field [OF assms(4,5), of city] obtain e where
    s: "simplify (JObj d) city = Inl e" and e: "e = TypeError \<or> (\<exists>k. e = KeyError k)"
    by blast
  from e have "except_key_type e = WeatherError (MalformedResponse e)" by auto
  then show ?thesis
    using assms(1-3) s by (simp add: get_weather_def get_api_key_def)
qed

text \<open>
  C4. The order of precedence of the outcomes of a lookup. The first three steps are the
  lemmas above. The fourth fails: on a status 200 body that lacks \<^verbatim>\<open>main.temp\<close> and whose
  \<^verbatim>\<open>sys\<close> member is \<^verbatim>\<open>null\<close>, \<^verbatim>\<open>sys_info.get\<close> raises \<^verbatim>\<open>AttributeError\<close> before \<^verbatim>\<open>main["temp"]\<close>
  is read; the handler names \<^verbatim>\<open>KeyError\<close> and \<^verbatim>\<open>TypeError\<close> only, so the exception leaves
  \<^verbatim>\<open>get_weather\<close> and is no \<^verbatim>\<open>WeatherError\<close>. A status 200 body that is not JSON at all does
  the same through \<^verbatim>\<open>resp.json()\<close>, which stands outside the \<^verbatim>\<open>try\<close>.
\<close>

theorem null_sys_escapes_as_attribute_error:
  "subscript (JObj [(''feels_like'', JFloat 17.9), (''humidity'', JInt 60)]) ''temp''
     = Inl (KeyError (JStr ''temp''))
   \<and> get_weather (answering null_sys_body) 0 (JStr ''Paris'')
     = (Inl (Uncaught AttributeError),
        [\<lparr>q = JStr ''Paris'', appid = ''key'', units = ''metric''\<rparr>])
   \<and> get_weather portal_first_world 0 (JStr ''Paris'')
     = (Inl (Uncaught JSONDecodeError),
        [\<lparr>q = JStr ''Paris'', appid = ''key'', units = ''metric''\<rparr>])"
  by (simp add: get_weather_def get_api_key_def answering_def null_sys_body_def simplify_def
      andthen_def getitem_def portal_first_world_def)

subsection \<open>The record of a successful lookup\<close>

text \<open>
  C3, as stated, fails: a lookup succeeds with an empty description when the first weather
  condition of the answer carries one.
\<close>

theorem empty_description_is_kept:
  "fst (get_weather (answering empty_description_body) 0 (JStr ''Paris''))
     = Inr [(''city'', JStr ''Paris''),
            (''country'', JStr []),
            (''temp'', JFloat 18.5),
            (''feels_like'', JFloat 17.9),
            (''description'', JStr []),
            (''humidity'', JInt 60),
            (''wind_speed'', JFloat 0)]"
  by (simp add: get_weather_def get_api_key_def answering_def empty_description_body_def
      simplify_def andthen_def getitem_def)

text \<open>
  C3, amended. Every successful lookup returns a record with exactly the seven keys
  \<^verbatim>\<open>city\<close>, \<^verbatim>\<open>country\<close>, \<^verbatim>\<open>temp\<close>, \<^verbatim>\<open>feels_like\<close>, \<^verbatim>\<open>description\<close>, \<^verbatim>\<open>humidity\<close>,
  \<^verbatim>\<open>wind_speed\<close>; its description is \<^verbatim>\<open>"N/A"\<close> when the weather list of the answer is absent
  or empty (false, for Python), and otherwise the description of the first condition as
  the API gave it.
\<close>

theorem successful_lookup_record:
  assumes "fst (get_weather w n city) = Inr r"
  shows "map fst r = [''city'', ''country'', ''temp'', ''feels_like'', ''description'',
                      ''humidity'', ''wind_speed'']
       \<and> (\<exists>api_key text data weather_list description.
             getenv w = Some api_key
           \<and> requests_get w n \<lparr>q = city, appid = api_key, units = ''metric''\<rparr>
                = Response 200 text (Some data)
           \<and> get_method data ''weather'' (JArr []) = Inr weather_list
           \<and> getitem r ''description'' = Inr description
           \<and> (if truthy weather_list
               then andthen (subscript0 weather_list) (\<lambda>first. subscript first ''description'')
                      = Inr description
               else description = JStr ''N/A''))"
proof -
  from get_weather_Inr [OF assms] obtain api_key resp_text data where
    k: "getenv w = Some api_key" and
    g: "requests_get w n \<lparr>q = city, appid = api_key, units = ''metric''\<rparr>
          = Response 200 resp_text (Some data)" and
    s: "simplify data city = Inr r"
    by blast
  from simplify_Inr [OF s] obtain main wind sys_info :: json
      and weather_list weather_desc name country temp feels_like humidity speed where
    wl: "get_method data ''weather'' (JArr []) = Inr weather_list" and
    wd: "(if truthy weather_list
          then andthen (subscript0 weather_list) (\<lambda>first. subscript first ''description'')
          else Inr (JStr ''N/A'')) = Inr weather_desc" and
    r: "r = [(''city'', name), (''country'', country), (''temp'', temp),
             (''feels_like'', feels_like), (''description'', weather_desc),
             (''humidity'', humidity), (''wind_speed'', speed)]"
    by blast
  have keys: "map fst r = [''city'', ''country'', ''temp'', ''feels_like'', ''description'',
                           ''humidity'', ''wind_speed'']"
    by (simp add: r)
  have d: "getitem r ''description'' = Inr weather_desc"
    by (simp add: r getitem_def)
  have c: "if truthy weather_list
           then andthen (subscript0 weather_list) (\<lambda>first. subscript first ''description'')
                  = Inr weather_desc
           else weather_desc = JStr ''N/A''"
    using wd by (simp split: if_splits)
  show ?thesis
    using keys k g wl d c by blast
qed

theorem successful_lookup_record_witness:
  "fst (get_weather (answering bare_body) 0 (JStr ''Lyon''))
     = Inr [(''city'', JStr ''Lyon''), (''country'', JStr []), (''temp'', JFloat 18.5),
            (''feels_like'', JFloat 17.9), (''description'', JStr ''N/A''),
            (''humidity'', JInt 60), (''wind_speed'', JFloat 0)]
   \<and> map fst [(''city'', JStr ''Lyon''), (''country'', JStr []), (''temp'', JFloat 18.5),
               (''feels_like'', JFloat 17.9), (''description'', JStr ''N/A''),
               (''humidity'', JInt 60), (''wind_speed'', JFloat 0)]
       = [''city'', ''country'', ''temp'', ''feels_like'', ''description'', ''humidity'',
          ''wind_speed'']"
proof -
  have h: "fst (get_weather (answering bare_body) 0 (JStr ''Lyon''))
     = Inr [(''city'', JStr ''Lyon''), (''country'', JStr []), (''temp'', JFloat 18.5),
            (''feels_like'', JFloat 17.9), (''description'', JStr ''N/A''),
            (''humidity'', JInt 60), (''wind_speed'', JFloat 0)]"
    by (simp add: get_weather_def get_api_key_def answering_def bare_body_def simplify_def
        andthen_def getitem_def)
  show ?thesis
    using h successful_lookup_record [OF h] by blast
qed

text \<open>
  Whatever record a lookup returns, its optional fields are those of the answer, or the
  defaults where the answer has none.
\<close>

lemma built_record_defaults:
  assumes "fst (get_weather w n city) = Inr r"
    and "getenv w = Some api_key"
    and "requests_get w n \<lparr>q = city, appid = api_key, units = ''metric''\<rparr>
           = Response status_code resp_text (Some (JObj d))"
  shows "status_code = 200
       \<and> getitem r ''city'' = Inr (case map_of d ''name'' of None \<Rightarrow> city | Some name \<Rightarrow> name)
       \<and> (map_of d ''sys'' = None \<longrightarrow> getitem r ''country'' = Inr (JStr []))
       \<and> (\<forall>sd. map_of d ''sys'' = Some (JObj sd) \<longrightarrow>
             getitem r ''country''
               = Inr (case map_of sd ''country'' of None \<Rightarrow> JStr [] | Some country \<Rightarrow> country))
       \<and> (map_of d ''weather'' = None \<or> map_of d ''weather'' = Some (JArr []) \<longrightarrow>
             getitem r ''description'' = Inr (JStr ''N/A''))
       \<and> (map_of d ''wind'' = None \<longrightarrow> getitem r ''wind_speed'' = Inr (JFloat 0))
       \<and> (\<forall>wd. map_of d ''wind'' = Some (JObj wd) \<longrightarrow>
             getitem r ''wind_speed''
               = Inr (case map_of wd ''speed'' of None \<Rightarrow> JFloat 0 | Some speed \<Rightarrow> speed))"
proof -
  from get_weather_Inr [OF assms(1)] obtain k t data where
    k: "getenv w = Some k" and
    g: "requests_get w n \<lparr>q = city, appid = k, units = ''metric''\<rparr> = Response 200 t (Some data)" and
    s: "simplify data city = Inr r"
    by blast
  from k assms(2) have "k = api_key" by simp
  with g assms(3) have st: "status_code = 200" and data: "data = JObj d" by simp_all
  from simplify_Inr [OF s] obtain main :: json
      and weather_list weather_desc wind sys_info name country temp feels_like humidity speed
    where
    wl: "get_method data ''weather'' (JArr []) = Inr weather_list" and
    wd: "(if truthy weather_list
          then andthen (subscript0 weather_list) (\<lambda>first. subscript first ''description'')
          else Inr (JStr ''N/A'')) = Inr weather_desc" and
    wi: "get_method data ''wind'' (JObj []) = Inr wind" and
    sy: "get_method data ''sys'' (JObj []) = Inr sys_info" and
    na: "get_method data ''name'' city = Inr name" and
    co: "get_method sys_info ''country'' (JStr []) = Inr country" and
    sp: "get_method wind ''speed'' (JFloat 0) = Inr speed" and
    r: "r = [(''city'', name), (''country'', country), (''temp'', temp),
             (''feels_like'', feels_like), (''description'', weather_desc),
             (''humidity'', humidity), (''wind_speed'', speed)]"
    by blast
  have c1: "getitem r ''city'' = Inr (case map_of d ''name'' of None \<Rightarrow> city | Some name \<Rightarrow> name)"
    using na by (simp add: r data getitem_def)
  have c2: "getitem r ''country'' = Inr (JStr [])" if "map_of d ''sys'' = None"
    using sy co that by (auto simp: r data getitem_def)
  have c3: "getitem r ''country''
              = Inr (case map_of sd ''country'' of None \<Rightarrow> JStr [] | Some country \<Rightarrow> country)"
    if "map_of d ''sys'' = Some (JObj sd)" for sd
    using sy co that by (auto simp: r data getitem_def)
  have c4: "getitem r ''description'' = Inr (JStr ''N/A'')"
    if "map_of d ''weather'' = None \<or> map_of d ''weather'' = Some (JArr [])"
    using wl wd that by (auto simp: r data getitem_def)
  have c5: "getitem r ''wind_speed'' = Inr (JFloat 0)" if "map_of d ''wind'' = None"
    using wi sp that by (auto simp: r data getitem_def)
  have c6: "getitem r ''wind_speed''
              = Inr (case map_of wd ''speed'' of None \<Rightarrow> JFloat 0 | Some speed \<Rightarrow> speed)"
    if "map_of d ''wind'' = Some (JObj wd)" for wd
    using wi sp that by (auto simp: r data getitem_def)
  show ?thesis
    using st c1 c2 c3 c4 c5 c6 by blast
qed

text \<open>
  C5, as stated, fails: the required fields do not suffice for a record to be built. On a
  status 200 answer that has them and whose first weather condition has no description,
  the lookup raises the \<^verbatim>\<open>WeatherError\<close> of a malformed response.
\<close>

theorem required_fields_do_not_suffice:
  "fst (get_weather (answering no_description_body) 0 (JStr ''Paris''))
     = Inl (WeatherError (MalformedResponse (KeyError (JStr ''description''))))"
  by (simp add: get_weather_def get_api_key_def answering_def no_description_body_def
      simplify_def andthen_def getitem_def)

text \<open>
  C5, amended. A status 200 answer that has the three required fields, and whose optional
  sections have the shape the API documents where they are present (\<^verbatim>\<open>sys\<close> and \<^verbatim>\<open>wind\<close> are
  objects, the weather list is empty or starts with an object that has a description),
  gives a record, and the record is: the \<^verbatim>\<open>name\<close> of the answer, or the requested name when it
  has none; the country of \<^verbatim>\<open>sys\<close>, or the empty string when \<^verbatim>\<open>sys\<close> or its country is absent;
  the three required fields; the description of the first weather condition, or \<^verbatim>\<open>"N/A"\<close>
  when the weather list is absent or empty; the speed of \<^verbatim>\<open>wind\<close>, or \<^verbatim>\<open>0.0\<close> when \<^verbatim>\<open>wind\<close> or its
  speed is absent.
\<close>

theorem well_shaped_answer_record:
  assumes "getenv w = Some api_key" and "api_key \<noteq> []"
    and "requests_get w n \<lparr>q = city, appid = api_key, units = ''metric''\<rparr>
           = Response 200 resp_text (Some (JObj d))"
    and "map_of d ''main'' = Some (JObj m)"
    and "map_of m ''temp'' = Some temp"
    and "map_of m ''feels_like'' = Some feels_like"
    and "map_of m ''humidity'' = Some humidity"
    and "case map_of d ''sys'' of
           None \<Rightarrow> country = JStr []
         | Some sys_info \<Rightarrow>
             (\<exists>sd. sys_info = JObj sd
                 \<and> country = (case map_of sd ''country'' of None \<Rightarrow> JStr [] | Some c \<Rightarrow> c))"
    and "case map_of d ''weather'' of
           None \<Rightarrow> description = JStr ''N/A''
         | Some weather_list \<Rightarrow>
             (weather_list = JArr [] \<and> description = JStr ''N/A'')
           \<or> (\<exists>cd rest. weather_list = JArr (JObj cd # rest)
                       \<and> map_of cd ''description'' = Some description)"
    and "case map_of d ''wind'' of
           None \<Rightarrow> speed = JFloat 0
         | Some wind \<Rightarrow>
             (\<exists>wd. wind = JObj wd
                 \<and> speed = (case map_of wd ''speed'' of None \<Rightarrow> JFloat 0 | Some v \<Rightarrow> v))"
  shows "fst (get_weather w n city)
           = Inr [(''city'', case map_of d ''name'' of None \<Rightarrow> city | Some name \<Rightarrow> name),
                  (''country'', country),
                  (''temp'', temp),
                  (''feels_like'', feels_like),
                  (''description'', description),
                  (''humidity'', humidity),
                  (''wind_speed'', speed)]"
proof -
  have "simplify (JObj d) city
          = Inr [(''city'', case map_of d ''name'' of None \<Rightarrow> city | Some name \<Rightarrow> name),
                 (''country'', country),
                 (''temp'', temp),
                 (''feels_like'', feels_like),
                 (''description'', description),
                 (''humidity'', humidity),
                 (''wind_speed'', speed)]"
    using assms(4-10)
    by (auto simp: simplify_def andthen_def getitem_def split: option.splits)
  then show ?thesis
    using assms(1-3) by (simp add: get_weather_def get_api_key_def)
qed

theorem well_shaped_answer_record_witness:
  "fst (get_weather (answering bare_body) 0 (JStr ''Lyon''))
     = Inr [(''city'', JStr ''Lyon''), (''country'', JStr []), (''temp'', JFloat 18.5),
            (''feels_like'', JFloat 17.9), (''description'', JStr ''N/A''),
            (''humidity'', JInt 60), (''wind_speed'', JFloat 0)]
   \<and> fst (get_weather (answering paris_body) 0 (JStr ''paris''))
     = Inr [(''city'', JStr ''Paris''), (''country'', JStr ''FR''), (''temp'', JFloat 18.5),
            (''feels_like'', JFloat 17.9), (''description'', JStr ''clear sky''),
            (''humidity'', JInt 60), (''wind_speed'', JFloat 3.6)]"
proof -
  have k: "getenv (answering body) = Some ''key''" and ne: "''key'' \<noteq> []" for body
    by (simp_all add: answering_def)
  have bare: "requests_get (answering bare_body) 0
                \<lparr>q = JStr ''Lyon'', appid = ''key'', units = ''metric''\<rparr>
              = Response 200 []
                  (Some (JObj [(''main'', JObj [(''temp'', JFloat 18.5),
                                               (''feels_like'', JFloat 17.9),
                                               (''humidity'', JInt 60)])]))"
    by (simp add: answering_def bare_body_def)
  have paris: "requests_get (answering paris_body) 0
                 \<lparr>q = JStr ''paris'', appid = ''key'', units = ''metric''\<rparr>
               = Response 200 []
                   (Some (JObj [(''name'', JStr ''Paris''),
                                (''sys'', JObj [(''country'', JStr ''FR'')]),
                                (''main'', JObj [(''temp'', JFloat 18.5),
                                                 (''feels_like'', JFloat 17.9),
                                                 (''humidity'', JInt 60)]),
                                (''weather'', JArr [JObj [(''description'', JStr ''clear sky'')]]),
                                (''wind'', JObj [(''speed'', JFloat 3.6)])]))"
    by (simp add: answering_def paris_body_def)
  have a: "fst (get_weather (answering bare_body) 0 (JStr ''Lyon''))
     = Inr [(''city'', JStr ''Lyon''), (''country'', JStr []), (''temp'', JFloat 18.5),
            (''feels_like'', JFloat 17.9), (''description'', JStr ''N/A''),
            (''humidity'', JInt 60), (''wind_speed'', JFloat 0)]"
    using well_shaped_answer_record
      [OF k ne bare, where temp = "JFloat 18.5" and feels_like = "JFloat 17.9"
        and humidity = "JInt 60" and country = "JStr []" and description = "JStr ''N/A''"
        and speed = "JFloat 0"]
    by simp
  have b: "fst (get_weather (answering paris_body) 0 (JStr ''paris''))
     = Inr [(''city'', JStr ''Paris''), (''country'', JStr ''FR''), (''temp'', JFloat 18.5),
            (''feels_like'', JFloat 17.9), (''description'', JStr ''clear sky''),
            (''humidity'', JInt 60), (''wind_speed'', JFloat 3.6)]"
    using well_shaped_answer_record
      [OF k ne paris, where temp = "JFloat 18.5" and feels_like = "JFloat 17.9"
        and humidity = "JInt 60" and country = "JStr ''FR''"
        and description = "JStr ''clear sky''" and speed = "JFloat 3.6"]
    by simp
  from a b show ?thesis by blast
qed

section \<open>Properties of the update flow\<close>

subsection \<open>Removing from a list\<close>

lemma list_pop_valid:
  assumes "1 \<le> p" and "p \<le> int (length xs)"
  shows "list_pop xs (p - 1) = Inr (xs ! nat (p - 1), take (nat (p - 1)) xs @ drop (nat p) xs)"
proof -
  have "Suc (nat (p - 1)) = nat p" using assms by simp
  then show ?thesis using assms by (simp add: list_pop_def Let_def)
qed

lemma length_without:
  assumes "1 \<le> p" and "p \<le> int (length xs)"
  shows "Suc (length (take (nat (p - 1)) xs @ drop (nat p) xs)) = length xs"
  using assms by simp

lemma subseq_without: "subseq (take i xs @ drop j xs) xs" if "i \<le> j"
proof -
  have "subseq (drop j xs) (drop i xs)"
    using that by (metis drop_drop le_add_diff_inverse2 suffix_drop suffix_imp_subseq)
  then have "subseq (take i xs @ drop j xs) (take i xs @ drop i xs)"
    by (intro list_emb_append_mono subseq_order.order_refl)
  then show ?thesis by simp
qed

lemma validate_and_append_rejects:
  assumes "JStr c \<in> set (favourites s) \<or> isl (fst (get_weather w (length (requests s)) (JStr c)))"
  shows "favourites (snd (validate_and_append w c s)) = favourites s"
  using assms
  by (auto simp: validate_and_append_def call_get_weather_def isl_def
      split: prod.splits sum.splits exn.splits)

lemma validate_and_append_favourites:
  "\<exists>extra. favourites (snd (validate_and_append w c s)) = favourites s @ extra \<and> length extra \<le> 1"
  by (auto simp: validate_and_append_def call_get_weather_def
      split: prod.splits sum.splits exn.splits)

subsection \<open>The steps of the flow\<close>

text \<open>The state in which the replacement city is asked for.\<close>

lemma update_valid_choice:
  assumes "stdin s = l # rest" and "py_int (strip l) = Some p"
    and "1 \<le> p" and "p \<le> int (length (favourites s))"
  shows "update_favourites_flow w s =
     (case prompt_city_name
             (print (Removed (favourites s ! nat (p - 1)))
                ((print (Prompt ''Enter the number of the city to remove: '')
                    (print_numbered 1 (favourites s) (print CurrentFavourites s)))
                 \<lparr>stdin := rest,
                  favourites := take (nat (p - 1)) (favourites s) @ drop (nat p) (favourites s)\<rparr>)) of
        (Inl e, s2) \<Rightarrow> (Inl e, s2)
      | (Inr None, s2) \<Rightarrow> (Inr (), print UpdateCancelled s2)
      | (Inr (Some city), s2) \<Rightarrow> validate_and_append w city s2)"
proof -
  from assms(3,4) have ne: "favourites s \<noteq> []" by auto
  show ?thesis
    using assms ne list_pop_valid [OF assms(3,4)]
    by (simp add: update_favourites_flow_def input_def Let_def)
qed

lemma prompt_city_name_reads:
  assumes "stdin t = l # ls"
  shows "prompt_city_name t =
           (Inr (if strip l = [] then None else Some (strip l)),
            (print (Prompt ''Enter city name (or press Enter to cancel): '') t)\<lparr>stdin := ls\<rparr>)"
  using assms by (simp add: prompt_city_name_def input_def Let_def)

lemma validate_and_append_stdout:
  "\<exists>later. stdout (snd (validate_and_append w c s)) = stdout s @ later"
  by (auto simp: validate_and_append_def call_get_weather_def
      split: prod.splits sum.splits exn.splits)

lemma replacement_step:
  fixes t :: state and w :: world
  defines "r \<equiv> (case prompt_city_name t of
                    (Inl e, s2) \<Rightarrow> (Inl e, s2)
                  | (Inr None, s2) \<Rightarrow> (Inr (), print UpdateCancelled s2)
                  | (Inr (Some city), s2) \<Rightarrow> validate_and_append w city s2)"
  shows "(\<exists>extra. favourites (snd r) = favourites t @ extra \<and> length extra \<le> 1)
       \<and> (\<exists>later. stdout (snd r) = stdout t @ later)"
proof (cases "stdin t")
  case Nil
  then show ?thesis
    by (simp add: r_def prompt_city_name_def input_def Let_def)
next
  case (Cons l ls)
  let ?s2 = "(print (Prompt ''Enter city name (or press Enter to cancel): '') t)\<lparr>stdin := ls\<rparr>"
  note p = prompt_city_name_reads [OF Cons]
  show ?thesis
  proof (cases "strip l = []")
    case True
    then show ?thesis by (simp add: r_def p)
  next
    case False
    then have r: "r = validate_and_append w (strip l) ?s2"
      by (simp add: r_def p)
    from validate_and_append_favourites [of w "strip l" ?s2]
      validate_and_append_stdout [of w "strip l" ?s2]
    show ?thesis unfolding r by auto
  qed
qed

subsection \<open>Invalid choices\<close>

text \<open>
  C7. In the update flow on a non-empty store, an input that is not a number, or a number
  below 1 or above the length of the store, ends the flow with the matching message and
  nothing else: no entry is removed, no request is issued, the store is unchanged.
\<close>

theorem invalid_choice_aborts_update:
  assumes "favourites s \<noteq> []" and "stdin s = l # rest"
    and "case py_int (strip l) of
           None \<Rightarrow> True
         | Some p \<Rightarrow> p < 1 \<or> int (length (favourites s)) < p"
  shows "update_favourites_flow w s =
           (Inr (),
            print (if py_int (strip l) = None then InvalidNumber else OutOfRange)
              ((print (Prompt ''Enter the number of the city to remove: '')
                  (print_numbered 1 (favourites s) (print CurrentFavourites s)))
               \<lparr>stdin := rest\<rparr>))
       \<and> favourites (snd (update_favourites_flow w s)) = favourites s
       \<and> requests (snd (update_favourites_flow w s)) = requests s"
proof (cases "py_int (strip l)")
  case None
  then show ?thesis
    using assms(1,2) by (simp add: update_favourites_flow_def input_def Let_def)
next
  case (Some p)
  with assms(3) have "\<not> (1 \<le> p \<and> p \<le> int (length (favourites s)))"
    by auto
  then show ?thesis
    using assms(1,2) Some by (simp add: update_favourites_flow_def input_def Let_def)
qed

theorem invalid_choice_aborts_update_witness:
  "update_favourites_flow not_found_world (two_favourites [''abc''])
     = (Inr (),
        \<lparr>favourites = [JStr ''Paris'', JStr ''Tokyo''], stdin = [],
         stdout = [CurrentFavourites, Numbered 1 (JStr ''Paris''), Numbered 2 (JStr ''Tokyo''),
                   Prompt ''Enter the number of the city to remove: '', InvalidNumber],
         requests = []\<rparr>)
   \<and> update_favourites_flow not_found_world (two_favourites [''3''])
     = (Inr (),
        \<lparr>favourites = [JStr ''Paris'', JStr ''Tokyo''], stdin = [],
         stdout = [CurrentFavourites, Numbered 1 (JStr ''Paris''), Numbered 2 (JStr ''Tokyo''),
                   Prompt ''Enter the number of the city to remove: '', OutOfRange],
         requests = []\<rparr>)
   \<and> py_int (strip ''abc'') = None \<and> py_int (strip ''3'') = Some 3"
proof -
  have a: "py_int (strip ''abc'') = None" and b: "py_int (strip ''3'') = Some 3"
    by (simp_all add: py_int_def strip_def is_space_def is_digit_def digit_val_def)
  have ne: "favourites (two_favourites typed) \<noteq> []" for typed
    by (simp add: two_favourites_def)
  have "update_favourites_flow not_found_world (two_favourites [''abc''])
     = (Inr (),
        \<lparr>favourites = [JStr ''Paris'', JStr ''Tokyo''], stdin = [],
         stdout = [CurrentFavourites, Numbered 1 (JStr ''Paris''), Numbered 2 (JStr ''Tokyo''),
                   Prompt ''Enter the number of the city to remove: '', InvalidNumber],
         requests = []\<rparr>)"
    using invalid_choice_aborts_update
      [of "two_favourites [''abc'']" "''abc''" "[]" not_found_world, OF ne] a
    by (simp add: two_favourites_def print_def)
  moreover have "update_favourites_flow not_found_world (two_favourites [''3''])
     = (Inr (),
        \<lparr>favourites = [JStr ''Paris'', JStr ''Tokyo''], stdin = [],
         stdout = [CurrentFavourites, Numbered 1 (JStr ''Paris''), Numbered 2 (JStr ''Tokyo''),
                   Prompt ''Enter the number of the city to remove: '', OutOfRange],
         requests = []\<rparr>)"
    using invalid_choice_aborts_update
      [of "two_favourites [''3'']" "''3''" "[]" not_found_world, OF ne] b
    by (simp add: two_favourites_def print_def)
  ultimately show ?thesis using a b by blast
qed

subsection \<open>The removal\<close>

text \<open>
  C8. For a position between 1 and the length of the store, \<^verbatim>\<open>pop\<close> removes the entry at
  that position: the list left is one shorter and keeps the other entries in their order,
  the name removed is the one reported by the flow, and the store at the end of the flow
  is that list, followed by the replacement when one was added.
\<close>

theorem removal_at_valid_position:
  assumes "stdin s = l # rest" and "py_int (strip l) = Some p"
    and "1 \<le> p" and "p \<le> int (length (favourites s))"
  shows "list_pop (favourites s) (p - 1)
           = Inr (favourites s ! nat (p - 1),
                  take (nat (p - 1)) (favourites s) @ drop (nat p) (favourites s))
       \<and> Suc (length (take (nat (p - 1)) (favourites s) @ drop (nat p) (favourites s)))
           = length (favourites s)
       \<and> subseq (take (nat (p - 1)) (favourites s) @ drop (nat p) (favourites s)) (favourites s)
       \<and> (\<exists>extra. favourites (snd (update_favourites_flow w s))
                     = (take (nat (p - 1)) (favourites s) @ drop (nat p) (favourites s)) @ extra
                  \<and> length extra \<le> 1)
       \<and> (\<exists>later. stdout (snd (update_favourites_flow w s))
                     = stdout (print_numbered 1 (favourites s) (print CurrentFavourites s))
                       @ [Prompt ''Enter the number of the city to remove: '',
                          Removed (favourites s ! nat (p - 1))]
                       @ later)"
proof -
  let ?remaining = "take (nat (p - 1)) (favourites s) @ drop (nat p) (favourites s)"
  let ?t = "print (Removed (favourites s ! nat (p - 1)))
              ((print (Prompt ''Enter the number of the city to remove: '')
                  (print_numbered 1 (favourites s) (print CurrentFavourites s)))
               \<lparr>stdin := rest, favourites := ?remaining\<rparr>)"
  note flow = update_valid_choice [OF assms, of w]
  have ft: "favourites ?t = ?remaining"
    and st: "stdout ?t = stdout (print_numbered 1 (favourites s) (print CurrentFavourites s))
                         @ [Prompt ''Enter the number of the city to remove: '',
                            Removed (favourites s ! nat (p - 1))]"
    by simp_all
  from replacement_step [where t = ?t and w = w]
  have "(\<exists>extra. favourites (snd (update_favourites_flow w s)) = ?remaining @ extra
                 \<and> length extra \<le> 1)
      \<and> (\<exists>later. stdout (snd (update_favourites_flow w s)) = stdout ?t @ later)"
    unfolding flow ft .
  moreover have "subseq ?remaining (favourites s)"
    by (rule subseq_without) simp
  ultimately show ?thesis
    using list_pop_valid [OF assms(3,4)] length_without [OF assms(3,4)]
    unfolding st by simp
qed

theorem removal_at_valid_position_witness:
  "py_int (strip ''1'') = Some 1
   \<and> list_pop [JStr ''Paris'', JStr ''Tokyo''] (1 - 1) = Inr (JStr ''Paris'', [JStr ''Tokyo''])
   \<and> update_favourites_flow not_found_world (two_favourites [''1'', []])
       = (Inr (),
          \<lparr>favourites = [JStr ''Tokyo''], stdin = [],
           stdout = [CurrentFavourites, Numbered 1 (JStr ''Paris''), Numbered 2 (JStr ''Tokyo''),
                     Prompt ''Enter the number of the city to remove: '',
                     Removed (JStr ''Paris''),
                     Prompt ''Enter city name (or press Enter to cancel): '',
                     UpdateCancelled],
           requests = []\<rparr>)"
proof -
  have p: "py_int (strip ''1'') = Some 1"
    by (simp add: py_int_def strip_def is_space_def is_digit_def digit_val_def)
  have len: "(1::int) \<le> int (length (favourites (two_favourites typed)))" for typed
    by (simp add: two_favourites_def)
  from removal_at_valid_position
    [of "two_favourites [''1'', []]" "''1''" "[[]]" 1 not_found_world, OF _ p _ len]
  have "list_pop [JStr ''Paris'', JStr ''Tokyo''] (1 - 1) = Inr (JStr ''Paris'', [JStr ''Tokyo''])"
    by (simp add: two_favourites_def)
  moreover have "update_favourites_flow not_found_world (two_favourites [''1'', []])
       = (Inr (),
          \<lparr>favourites = [JStr ''Tokyo''], stdin = [],
           stdout = [CurrentFavourites, Numbered 1 (JStr ''Paris''), Numbered 2 (JStr ''Tokyo''),
                     Prompt ''Enter the number of the city to remove: '',
                     Removed (JStr ''Paris''),
                     Prompt ''Enter city name (or press Enter to cancel): '',
                     UpdateCancelled],
           requests = []\<rparr>)"
    by (simp add: update_favourites_flow_def two_favourites_def input_def print_def Let_def
        prompt_city_name_def strip_def is_space_def py_int_def is_digit_def digit_val_def
        list_pop_def)
  ultimately show ?thesis using p by blast
qed

subsection \<open>No rollback\<close>

text \<open>
  C6. After a valid removal, when the replacement is cancelled by an empty input, is
  already among the remaining favourites, or when its lookup raises, the flow ends with
  the store as the removal left it: one entry fewer than at the start.
\<close>

theorem failed_replacement_keeps_removal:
  assumes "stdin s = l1 # l2 # rest" and "py_int (strip l1) = Some p"
    and "1 \<le> p" and "p \<le> int (length (favourites s))"
    and "strip l2 = []
       \<or> JStr (strip l2) \<in> set (take (nat (p - 1)) (favourites s) @ drop (nat p) (favourites s))
       \<or> isl (fst (get_weather w (length (requests s)) (JStr (strip l2))))"
  shows "favourites (snd (update_favourites_flow w s))
           = take (nat (p - 1)) (favourites s) @ drop (nat p) (favourites s)
       \<and> Suc (length (favourites (snd (update_favourites_flow w s)))) = length (favourites s)"
proof -
  let ?remaining = "take (nat (p - 1)) (favourites s) @ drop (nat p) (favourites s)"
  let ?t = "print (Removed (favourites s ! nat (p - 1)))
              ((print (Prompt ''Enter the number of the city to remove: '')
                  (print_numbered 1 (favourites s) (print CurrentFavourites s)))
               \<lparr>stdin := l2 # rest, favourites := ?remaining\<rparr>)"
  let ?s2 = "(print (Prompt ''Enter city name (or press Enter to cancel): '') ?t)\<lparr>stdin := rest\<rparr>"
  have flow: "update_favourites_flow w s =
     (case prompt_city_name ?t of
        (Inl e, s2) \<Rightarrow> (Inl e, s2)
      | (Inr None, s2) \<Rightarrow> (Inr (), print UpdateCancelled s2)
      | (Inr (Some city), s2) \<Rightarrow> validate_and_append w city s2)"
    using update_valid_choice [OF assms(1-4)] .
  have prompt: "prompt_city_name ?t = (Inr (if strip l2 = [] then None else Some (strip l2)), ?s2)"
    by (rule prompt_city_name_reads) simp
  have fav: "favourites ?s2 = ?remaining" and req: "requests ?s2 = requests s"
    by simp_all
  have kept: "favourites (snd (update_favourites_flow w s)) = ?remaining"
  proof (cases "strip l2 = []")
    case True
    then show ?thesis unfolding flow prompt by simp
  next
    case False
    with assms(5) have
      "JStr (strip l2) \<in> set (favourites ?s2)
       \<or> isl (fst (get_weather w (length (requests ?s2)) (JStr (strip l2))))"
      by (simp only: fav req) blast
    from validate_and_append_rejects [OF this] False show ?thesis
      unfolding flow prompt by simp
  qed
  moreover have "Suc (length ?remaining) = length (favourites s)"
    using length_without [OF assms(3,4)] .
  ultimately show ?thesis by simp
qed

theorem failed_replacement_keeps_removal_witness:
  "favourites (snd (update_favourites_flow not_found_world (two_favourites [''1'', []])))
     = [JStr ''Tokyo'']
   \<and> favourites (snd (update_favourites_flow not_found_world (two_favourites [''1'', ''Tokyo''])))
     = [JStr ''Tokyo'']
   \<and> favourites (snd (update_favourites_flow not_found_world (two_favourites [''1'', ''Nowhere123''])))
     = [JStr ''Tokyo'']
   \<and> isl (fst (get_weather not_found_world 0 (JStr ''Nowhere123'')))"
proof -
  have p: "py_int (strip ''1'') = Some 1"
    by (simp add: py_int_def strip_def is_space_def is_digit_def digit_val_def)
  have len: "(1::int) \<le> int (length (favourites (two_favourites typed)))" for typed
    by (simp add: two_favourites_def)
  have nf: "isl (fst (get_weather not_found_world 0 (JStr ''Nowhere123'')))"
    by (simp add: get_weather_def get_api_key_def not_found_world_def)
  have a: "favourites (snd (update_favourites_flow not_found_world (two_favourites [''1'', []])))
             = [JStr ''Tokyo'']"
    using failed_replacement_keeps_removal
      [of "two_favourites [''1'', []]" "''1''" "[]" "[]" 1 not_found_world, OF _ p _ len]
    by (simp add: two_favourites_def strip_def)
  have b: "favourites (snd (update_favourites_flow not_found_world (two_favourites [''1'', ''Tokyo''])))
             = [JStr ''Tokyo'']"
    using failed_replacement_keeps_removal
      [of "two_favourites [''1'', ''Tokyo'']" "''1''" "''Tokyo''" "[]" 1 not_found_world, OF _ p _ len]
    by (simp add: two_favourites_def strip_def is_space_def)
  have c: "favourites (snd (update_favourites_flow not_found_world
                              (two_favourites [''1'', ''Nowhere123''])))
             = [JStr ''Tokyo'']"
    using failed_replacement_keeps_removal
      [of "two_favourites [''1'', ''Nowhere123'']" "''1''" "''Nowhere123''" "[]" 1 not_found_world,
        OF _ p _ len] nf
    by (simp add: two_favourites_def strip_def is_space_def)
  from a b c nf show ?thesis by blast
qed

section \<open>Properties of the list flow\<close>

text \<open>
  The store keeps its length through the list flow, and it keeps its entries unless one of
  them is a list: \<^verbatim>\<open>print_weather\<close> extends in place a list that it finds under \<^verbatim>\<open>"city"\<close>, and
  that list is the stored object when the answer carries no name.
\<close>

lemma list_loop_length [simp]:
  "length (favourites (snd (list_loop w idx cs s))) = length (favourites s)"
  by (rule list_loop_preserves [where P = "\<lambda>t. length (favourites t) = length (favourites s)"])
    simp_all

lemma list_favourites_flow_length:
  "length (favourites (snd (list_favourites_flow w s))) = length (favourites s)"
  by (simp add: list_favourites_flow_def)

lemma print_weather_keeps_other_cities:
  assumes "map_of info ''city'' = Some city" and "\<forall>xs. city \<noteq> JArr xs"
  shows "map_of (snd (print_weather w info t)) ''city'' = Some city"
  using assms
  by (cases city)
    (simp_all add: print_weather_def getitem_def info_after_iadd_def split: sum.splits option.splits)

lemma call_get_weather_city:
  assumes "call_get_weather w city t = (Inr info, t')"
  shows "\<exists>v. map_of info ''city'' = Some v
            \<and> (city_is_argument w (length (requests t)) city \<longrightarrow> v = city)"
proof -
  from assms have r: "fst (get_weather w (length (requests t)) city) = Inr info"
    by (auto simp: call_get_weather_def split: prod.splits)
  from get_weather_Inr [OF r] obtain api_key resp_text data where
    k: "getenv w = Some api_key" "api_key \<noteq> []" and
    g: "requests_get w (length (requests t)) \<lparr>q = city, appid = api_key, units = ''metric''\<rparr>
          = Response 200 resp_text (Some data)" and
    s: "simplify data city = Inr info"
    by blast
  from simplify_Inr [OF s] obtain name where
    n: "get_method data ''name'' city = Inr name" and c: "map_of info ''city'' = Some name"
    by auto
  have "name = city" if "city_is_argument w (length (requests t)) city"
    using that n k g
    by (cases data) (auto simp: city_is_argument_def get_api_key_def split: option.splits)
  with c show ?thesis by blast
qed

lemma list_loop_keeps_store_without_lists:
  assumes "\<forall>c \<in> set cs. \<forall>xs. c \<noteq> JArr xs"
  shows "favourites (snd (list_loop w idx cs s)) = favourites s"
  using assms
proof (induction cs arbitrary: idx s)
  case Nil
  then show ?case by simp
next
  case (Cons city rest)
  let ?s1 = "print (ListEntry idx city) s"
  from Cons.prems have city: "\<forall>xs. city \<noteq> JArr xs"
    and rest: "\<forall>c \<in> set rest. \<forall>xs. c \<noteq> JArr xs"
    by simp_all
  note IH = Cons.IH [OF rest]
  obtain r s2 where g: "call_get_weather w city ?s1 = (r, s2)"
    by (cases "call_get_weather w city ?s1")
  have s2: "favourites s2 = favourites s"
    using call_get_weather_frame(1) [of w city ?s1] g by simp
  show ?case
  proof (cases r)
    case (Inl x)
    then show ?thesis using g s2 IH by (cases x) (simp_all add: Let_def)
  next
    case (Inr info)
    obtain r3 s3 info' where pw: "print_weather w info s2 = ((r3, s3), info')"
      by (cases "print_weather w info s2") auto
    have s3: "favourites s3 = favourites s"
      using print_weather_frame(1) [of w info s2] pw s2 by simp
    let ?s4 = "if city_is_argument w (length (requests ?s1)) city
               then store_city (idx - 1) info' s3 else s3"
    have "favourites ?s4 = favourites s"
    proof (cases "city_is_argument w (length (requests ?s1)) city")
      case True
      from call_get_weather_city [OF g [unfolded Inr]] True
      have "map_of info ''city'' = Some city" by auto
      from print_weather_keeps_other_cities [OF this city, of w s2] pw
      have "map_of info' ''city'' = Some city" by simp
      with city s3 True show ?thesis
        by (cases city) (simp_all add: store_city_def)
    next
      case False
      with s3 show ?thesis by simp
    qed
    then have s4: "favourites ?s4 = favourites s" .
    show ?thesis
    proof (cases r3)
      case inner: (Inl x)
      show ?thesis
      proof (cases x)
        case (WeatherError e)
        from IH [of "Suc idx" "print (EntryError city e) ?s4"] s4 show ?thesis
          by (simp add: g Inr pw inner WeatherError Let_def)
      next
        case (Uncaught e)
        with s4 show ?thesis by (simp add: g Inr pw inner Let_def)
      qed
    next
      case inner: (Inr u)
      from IH [of "Suc idx" ?s4] s4 show ?thesis
        by (simp add: g Inr pw inner Let_def)
    qed
  qed
qed

lemma list_flow_keeps_store_without_lists:
  assumes "\<forall>c \<in> set (favourites s). \<forall>xs. c \<noteq> JArr xs"
  shows "favourites (snd (list_favourites_flow w s)) = favourites s"
  using list_loop_keeps_store_without_lists [OF assms] by (simp add: list_favourites_flow_def)

text \<open>
  A stored list is extended: with a store that holds the list \<^verbatim>\<open>["Paris"]\<close> (the name an
  earlier answer carried) and an answer for it that has a country but no name, the list
  flow leaves the list with the characters of \<^verbatim>\<open>", FR"\<close> added.
\<close>

lemma list_flow_extends_stored_list:
  "list_favourites_flow (answering nameless_body)
     \<lparr>favourites = [JArr [JStr ''Paris'']], stdin = [], stdout = [], requests = []\<rparr>
   = (Inr (),
      \<lparr>favourites = [JArr [JStr ''Paris'', JStr '','', JStr '' '', JStr ''F'', JStr ''R'']],
       stdin = [],
       stdout = [ListHeader, ListRule, ListEntry 1 (JArr [JStr ''Paris'']),
                 WeatherFor (JArr [JStr ''Paris'', JStr '','', JStr '' '', JStr ''F'', JStr ''R'']),
                 Dashes 17, DescriptionLine ''N/A'', TemperatureLine (JFloat 18.5),
                 FeelsLikeLine (JFloat 17.9), HumidityLine (JInt 60), WindSpeedLine (JFloat 0),
                 Blank],
       requests = [\<lparr>q = JArr [JStr ''Paris''], appid = ''key'', units = ''metric''\<rparr>]\<rparr>)"
  by (simp add: list_favourites_flow_def print_def Let_def call_get_weather_def get_weather_def
      get_api_key_def answering_def nameless_body_def simplify_def andthen_def getitem_def
      city_is_argument_def print_weather_def print_report_def info_after_iadd_def
      format_value_def store_city_def)

text \<open>
  What the loop does isolate: when the key is set and every lookup of a stored entry
  either raises \<^verbatim>\<open>WeatherError\<close> or returns a record that \<^verbatim>\<open>print_weather\<close> can render, the flow
  returns normally after one request per stored entry, in the order of the store.
\<close>

lemma get_weather_issues_one_request:
  assumes "getenv w = Some k" and "k \<noteq> []"
  shows "snd (get_weather w n c) = [\<lparr>q = c, appid = k, units = ''metric''\<rparr>]"
  using assms by (simp add: get_weather_def get_api_key_def Let_def)

lemma call_get_weather_eq:
  "call_get_weather w c s =
     (fst (get_weather w (length (requests s)) c),
      s\<lparr>requests := requests s @ snd (get_weather w (length (requests s)) c)\<rparr>)"
  by (simp add: call_get_weather_def split: prod.splits)

lemma list_loop_isolates_weather_errors:
  assumes "getenv w = Some k" and "k \<noteq> []"
    and "\<forall>c \<in> set cs. \<forall>n.
           (case fst (get_weather w n c) of
              Inl (WeatherError e) \<Rightarrow> True
            | Inl (Uncaught e) \<Rightarrow> False
            | Inr info \<Rightarrow> (\<forall>t. fst (fst (print_weather w info t)) = Inr ()))"
  shows "fst (list_loop w idx cs s) = Inr ()
       \<and> requests (snd (list_loop w idx cs s))
           = requests s @ map (\<lambda>c. \<lparr>q = c, appid = k, units = ''metric''\<rparr>) cs"
  using assms(3)
proof (induction cs arbitrary: idx s)
  case Nil
  then show ?case by simp
next
  case (Cons city rest)
  let ?n = "length (requests s)"
  let ?s1 = "print (ListEntry idx city) s"
  let ?s2 = "?s1\<lparr>requests := requests s @ [\<lparr>q = city, appid = k, units = ''metric''\<rparr>]\<rparr>"
  have call: "call_get_weather w city ?s1 = (fst (get_weather w ?n city), ?s2)"
    by (simp add: call_get_weather_eq get_weather_issues_one_request [OF assms(1,2)])
  have rest: "\<forall>c \<in> set rest. \<forall>n.
           (case fst (get_weather w n c) of
              Inl (WeatherError e) \<Rightarrow> True
            | Inl (Uncaught e) \<Rightarrow> False
            | Inr info \<Rightarrow> (\<forall>t. fst (fst (print_weather w info t)) = Inr ()))"
    using Cons.prems by simp
  note IH = Cons.IH [OF rest]
  have here: "case fst (get_weather w ?n city) of
              Inl (WeatherError e) \<Rightarrow> True
            | Inl (Uncaught e) \<Rightarrow> False
            | Inr info \<Rightarrow> (\<forall>t. fst (fst (print_weather w info t)) = Inr ())"
    using Cons.prems by simp
  show ?case
  proof (cases "fst (get_weather w ?n city)")
    case (Inl x)
    with here obtain e where x: "x = WeatherError e"
      by (cases x) simp_all
    show ?thesis
      using IH [of "Suc idx" "print (EntryError city e) ?s2"]
      by (simp add: call Inl x Let_def)
  next
    case (Inr info)
    with here have ok: "fst (fst (print_weather w info ?s2)) = Inr ()" by simp
    obtain s3 info' where pw: "print_weather w info ?s2 = ((Inr (), s3), info')"
      using ok by (cases "print_weather w info ?s2") auto
    let ?s4 = "if city_is_argument w (length (requests ?s1)) city
               then store_city (idx - 1) info' s3 else s3"
    have "requests s3 = requests ?s2"
      using print_weather_frame(3) [of w info ?s2] pw by simp
    then have "requests ?s4 = requests ?s2" by simp
    then show ?thesis
      using IH [of "Suc idx" ?s4]
      by (simp add: call Inr pw Let_def)
  qed
qed

lemma list_flow_isolates_weather_errors:
  assumes "getenv w = Some k" and "k \<noteq> []" and "favourites s \<noteq> []"
    and "\<forall>c \<in> set (favourites s). \<forall>n.
           (case fst (get_weather w n c) of
              Inl (WeatherError e) \<Rightarrow> True
            | Inl (Uncaught e) \<Rightarrow> False
            | Inr info \<Rightarrow> (\<forall>t. fst (fst (print_weather w info t)) = Inr ()))"
  shows "fst (list_favourites_flow w s) = Inr ()
       \<and> requests (snd (list_favourites_flow w s))
           = requests s @ map (\<lambda>c. \<lparr>q = c, appid = k, units = ''metric''\<rparr>) (favourites s)"
  using list_loop_isolates_weather_errors [OF assms(1,2,4), of 1 "print ListRule (print ListHeader s)"]
    assms(3)
  by (simp add: list_favourites_flow_def)

text \<open>
  C9. In the list flow, a failed lookup for one entry does not keep the remaining entries
  from being looked up. This fails when the failure is not a \<^verbatim>\<open>WeatherError\<close>: with the
  favourites Paris and Tokyo, an answer for Paris that is not JSON, or whose \<^verbatim>\<open>sys\<close> member
  is \<^verbatim>\<open>null\<close>, raises inside \<^verbatim>\<open>get_weather\<close> an exception that the loop does not catch; the
  flow ends there, after one request, and Tokyo is never looked up.
\<close>

theorem undecodable_answer_aborts_list:
  "list_favourites_flow portal_first_world (two_favourites [])
     = (Inl (Uncaught JSONDecodeError),
        \<lparr>favourites = [JStr ''Paris'', JStr ''Tokyo''], stdin = [],
         stdout = [ListHeader, ListRule, ListEntry 1 (JStr ''Paris'')],
         requests = [\<lparr>q = JStr ''Paris'', appid = ''key'', units = ''metric''\<rparr>]\<rparr>)
   \<and> list_favourites_flow (answering null_sys_body) (two_favourites [])
     = (Inl (Uncaught AttributeError),
        \<lparr>favourites = [JStr ''Paris'', JStr ''Tokyo''], stdin = [],
         stdout = [ListHeader, ListRule, ListEntry 1 (JStr ''Paris'')],
         requests = [\<lparr>q = JStr ''Paris'', appid = ''key'', units = ''metric''\<rparr>]\<rparr>)"
  by (simp add: list_favourites_flow_def two_favourites_def print_def Let_def
      call_get_weather_def get_weather_def get_api_key_def portal_first_world_def
      answering_def null_sys_body_def simplify_def andthen_def getitem_def)

section \<open>Properties of the menu loop and the script\<close>

subsection \<open>No flow raises WeatherError\<close>

text \<open>
  Every flow catches the \<^verbatim>\<open>WeatherError\<close> of its lookups, so \<^verbatim>\<open>main\<close> never raises one and
  the handler under \<^verbatim>\<open>if __name__ == "__main__"\<close> never runs.
\<close>

lemma input_result:
  "fst (input p s) \<noteq> Inl (WeatherError e)"
  by (simp add: input_def Let_def split: list.splits)

lemma prompt_city_name_result:
  "fst (prompt_city_name s) \<noteq> Inl (WeatherError e)"
  using input_result [of "''Enter city name (or press Enter to cancel): ''" s e]
  by (auto simp: prompt_city_name_def split: prod.splits sum.splits)

lemma print_report_result:
  "fst (print_report info location s) \<noteq> Inl (WeatherError e)"
  by (simp add: print_report_def Let_def split: sum.splits json.splits)

lemma print_weather_result:
  "fst (fst (print_weather w info s)) \<noteq> Inl (WeatherError e)"
  by (simp add: print_weather_def print_report_result split: sum.splits)

lemma validate_and_append_result:
  "fst (validate_and_append w c s) \<noteq> Inl (WeatherError e)"
  by (simp add: validate_and_append_def split: prod.splits sum.splits exn.splits)

lemma search_city_flow_result:
  "fst (search_city_flow w s) \<noteq> Inl (WeatherError e)"
  using prompt_city_name_result [of s e]
  by (auto simp: search_city_flow_def print_weather_result
      split: prod.splits sum.splits exn.splits option.splits)

lemma add_favourite_flow_result:
  "fst (add_favourite_flow w s) \<noteq> Inl (WeatherError e)"
  using prompt_city_name_result [of s e]
  by (auto simp: add_favourite_flow_def validate_and_append_result
      split: prod.splits sum.splits option.splits)

lemma list_loop_result:
  "fst (list_loop w idx cs s) \<noteq> Inl (WeatherError e)"
proof (induction cs arbitrary: idx s)
  case Nil
  then show ?case by simp
next
  case (Cons city rest)
  have "r \<noteq> Inl (WeatherError x)" if "print_weather w info t = ((r, t'), info')"
    for info t r t' info' x
    using print_weather_result [of w info t x] that by simp
  with Cons.IH show ?case
    by (simp add: Let_def split: prod.splits sum.splits exn.splits)
qed

lemma list_favourites_flow_result:
  "fst (list_favourites_flow w s) \<noteq> Inl (WeatherError e)"
  by (simp add: list_favourites_flow_def list_loop_result)

lemma update_favourites_flow_result:
  "fst (update_favourites_flow w s) \<noteq> Inl (WeatherError e)"
proof -
  have i: "fst (input p t) \<noteq> Inl (WeatherError e)" for p t
    by (rule input_result)
  have p: "fst (prompt_city_name t) \<noteq> Inl (WeatherError e)" for t
    by (rule prompt_city_name_result)
  show ?thesis
    apply (simp add: update_favourites_flow_def validate_and_append_result
        split: prod.splits sum.splits option.splits)
    using i p by (metis fst_conv)
qed

lemma after_flow_result:
  "fst (after_flow r) \<noteq> Inl (WeatherError e)" if "fst r \<noteq> Inl (WeatherError e)"
  using that by (auto simp: after_flow_def split: prod.splits sum.splits)

lemma menu_iteration_result:
  "fst (menu_iteration w s) \<noteq> Inl (WeatherError e)"
proof -
  obtain r s1 where i: "input ''Choose an option (1-5): '' (print_menu s) = (r, s1)"
    by (cases "input ''Choose an option (1-5): '' (print_menu s)")
  have r: "r \<noteq> Inl (WeatherError e)"
    using input_result [of "''Choose an option (1-5): ''" "print_menu s" e] i by simp
  show ?thesis
  proof (cases r)
    case (Inl x)
    then show ?thesis using i r by (simp add: menu_iteration_def)
  next
    case (Inr l)
    then show ?thesis
      using i
      by (simp add: menu_iteration_def Let_def after_flow_result search_city_flow_result
          add_favourite_flow_result list_favourites_flow_result update_favourites_flow_result)
  qed
qed

lemma main_loop_result:
  "fst (main_loop w s) \<noteq> Inl (WeatherError e)"
proof (induction w s rule: main_loop.induct)
  case (1 w s)
  obtain r s' where m: "menu_iteration w s = (r, s')"
    by (cases "menu_iteration w s")
  have "r \<noteq> Inl (WeatherError e)"
    using menu_iteration_result [of w s e] m by simp
  then show ?case
    using "1.IH" m by (subst main_loop.simps) (auto split: sum.splits)
qed

lemma main_never_raises_weather_error:
  "fst (main w typed) \<noteq> Inl (WeatherError e)"
  unfolding main_def by (rule main_loop_result)

lemma script_never_prints_fatal_error:
  "script w typed =
     (case main w typed of (Inr u, s) \<Rightarrow> (0, s) | (Inl e, s) \<Rightarrow> (1, s))"
proof -
  obtain r s where m: "main w typed = (r, s)"
    by (cases "main w typed")
  show ?thesis
  proof (cases r)
    case (Inl x)
    show ?thesis
    proof (cases x)
      case (WeatherError e)
      with Inl m main_never_raises_weather_error [of w typed e] show ?thesis by simp
    next
      case (Uncaught e)
      with Inl m show ?thesis by (simp add: script_def)
    qed
  next
    case (Inr u)
    then show ?thesis using m by (simp add: script_def)
  qed
qed

subsection \<open>Capacity\<close>

text \<open>
  The store never grows beyond three entries: the add flow refuses at three, and the
  update flow adds at most the one entry it removed.
\<close>

lemma validate_and_append_length:
  "length (favourites (snd (validate_and_append w c s))) \<le> Suc (length (favourites s))"
  by (auto simp: validate_and_append_def call_get_weather_def
      split: prod.splits sum.splits exn.splits)

lemma search_city_flow_favourites:
  "favourites (snd (search_city_flow w s)) = favourites s"
proof -
  obtain r s1 where p: "prompt_city_name s = (r, s1)"
    by (cases "prompt_city_name s")
  have f1: "favourites s1 = favourites s"
    using prompt_city_name_frame(1) [OF p] .
  show ?thesis
  proof (cases r)
    case (Inl e)
    then show ?thesis using p f1 by (simp add: search_city_flow_def)
  next
    case (Inr c)
    show ?thesis
    proof (cases c)
      case None
      then show ?thesis using p f1 Inr by (simp add: search_city_flow_def)
    next
      case (Some city)
      obtain r2 s2 where g: "call_get_weather w (JStr city) s1 = (r2, s2)"
        by (cases "call_get_weather w (JStr city) s1")
      have "favourites s2 = favourites s1"
        using call_get_weather_frame(1) [of w "JStr city" s1] g by simp
      then show ?thesis using p f1 Inr Some g
        by (simp add: search_city_flow_def split: sum.splits exn.splits)
    qed
  qed
qed

lemma add_favourite_flow_capacity:
  assumes "length (favourites s) \<le> 3"
  shows "length (favourites (snd (add_favourite_flow w s))) \<le> 3"
proof (cases "3 \<le> length (favourites s)")
  case True
  then show ?thesis using assms by (simp add: add_favourite_flow_def)
next
  case False
  obtain r s1 where p: "prompt_city_name s = (r, s1)"
    by (cases "prompt_city_name s")
  have f1: "favourites s1 = favourites s"
    using prompt_city_name_frame(1) [OF p] .
  have "length (favourites (snd (validate_and_append w c s1))) \<le> 3" for c
    using validate_and_append_length [of w c s1] f1 False by simp
  then show ?thesis
    using False p f1 assms
    by (simp add: add_favourite_flow_def split: sum.splits option.splits)
qed

lemma update_favourites_flow_length:
  "length (favourites (snd (update_favourites_flow w s))) \<le> length (favourites s)"
proof (cases "favourites s = []")
  case True
  then show ?thesis by (simp add: update_favourites_flow_def)
next
  case False
  show ?thesis
  proof (cases "stdin s")
    case Nil
    with False show ?thesis by (simp add: update_favourites_flow_def input_def Let_def)
  next
    case (Cons l rest)
    show ?thesis
    proof (cases "py_int (strip l)")
      case None
      with False Cons show ?thesis by (simp add: update_favourites_flow_def input_def Let_def)
    next
      case (Some p)
      show ?thesis
      proof (cases "1 \<le> p \<and> p \<le> int (length (favourites s))")
        case outside: False
        with False Cons Some show ?thesis
          by (simp add: update_favourites_flow_def input_def Let_def)
      next
        case True
        then have lo: "1 \<le> p" and hi: "p \<le> int (length (favourites s))" by simp_all
        let ?remaining = "take (nat (p - 1)) (favourites s) @ drop (nat p) (favourites s)"
        let ?t = "print (Removed (favourites s ! nat (p - 1)))
                    ((print (Prompt ''Enter the number of the city to remove: '')
                        (print_numbered 1 (favourites s) (print CurrentFavourites s)))
                     \<lparr>stdin := rest, favourites := ?remaining\<rparr>)"
        note flow = update_valid_choice [OF Cons Some lo hi, of w]
        have ft: "favourites ?t = ?remaining" by simp
        from replacement_step [where t = ?t and w = w]
        obtain extra where
          "favourites (snd (update_favourites_flow w s)) = ?remaining @ extra"
          and "length extra \<le> 1"
          unfolding flow ft by blast
        then show ?thesis
          using length_without [OF lo hi] by simp
      qed
    qed
  qed
qed

lemma menu_iteration_capacity:
  assumes "length (favourites s) \<le> 3"
  shows "length (favourites (snd (menu_iteration w s))) \<le> 3"
proof -
  obtain r s1 where i: "input ''Choose an option (1-5): '' (print_menu s) = (r, s1)"
    by (cases "input ''Choose an option (1-5): '' (print_menu s)")
  have f1: "favourites s1 = favourites s"
    using input_frame(1) [OF i] by (simp add: print_menu_def)
  have after: "length (favourites (snd (after_flow x))) \<le> 3"
    if "length (favourites (snd x)) \<le> 3" for x
    using that by (auto simp: after_flow_def split: prod.splits sum.splits)
  have flows:
    "length (favourites (snd (search_city_flow w (print Blank s1)))) \<le> 3"
    "length (favourites (snd (add_favourite_flow w (print Blank s1)))) \<le> 3"
    "length (favourites (snd (list_favourites_flow w (print Blank s1)))) \<le> 3"
    "length (favourites (snd (update_favourites_flow w (print Blank s1)))) \<le> 3"
    using assms f1 add_favourite_flow_capacity [of "print Blank s1" w]
      update_favourites_flow_length [of w "print Blank s1"]
    by (simp_all add: search_city_flow_favourites list_favourites_flow_length)
  show ?thesis
  proof (cases r)
    case (Inl e)
    then show ?thesis using i f1 assms by (simp add: menu_iteration_def)
  next
    case (Inr l)
    then show ?thesis
      using i f1 assms flows by (simp add: menu_iteration_def Let_def after)
  qed
qed

lemma main_loop_capacity:
  assumes "length (favourites s) \<le> 3"
  shows "length (favourites (snd (main_loop w s))) \<le> 3"
  using assms
proof (induction w s rule: main_loop.induct)
  case (1 w s)
  obtain r s' where m: "menu_iteration w s = (r, s')"
    by (cases "menu_iteration w s")
  have s': "length (favourites s') \<le> 3"
    using menu_iteration_capacity [OF "1.prems", of w] m by simp
  show ?case
  proof (cases r)
    case (Inl e)
    then show ?thesis using m s' by (subst main_loop.simps) simp
  next
    case (Inr again)
    show ?thesis
    proof (cases again)
      case True
      from "1.IH" [OF m [symmetric] Inr True s'] show ?thesis
        using m Inr True by (subst main_loop.simps) simp
    next
      case False
      then show ?thesis using m Inr s' by (subst main_loop.simps) simp
    qed
  qed
qed

lemma script_capacity:
  "length (favourites (snd (script w typed))) \<le> 3"
proof -
  have "length (favourites (snd (main w typed))) \<le> 3"
    unfolding main_def by (rule main_loop_capacity) simp
  then show ?thesis
    by (auto simp: script_def split: prod.splits sum.splits exn.splits)
qed

subsection \<open>The credential and the exit status\<close>

text \<open>
  C2. With the credential variable unset, a lookup raises the missing-credential error
  and issues no request; but the process does not end with a non-zero status: the search
  flow prints the error and returns, the menu comes back, and the process ends with
  status 0 when the user chooses 5.
\<close>

theorem missing_key_does_not_end_the_process:
  "search_city_flow no_key_world \<lparr>favourites = [], stdin = [''Paris''], stdout = [], requests = []\<rparr>
     = (Inr (),
        \<lparr>favourites = [], stdin = [],
         stdout = [Prompt ''Enter city name (or press Enter to cancel): '',
                   ErrorLine MissingCredential],
         requests = []\<rparr>)
   \<and> fst (script no_key_world [''1'', ''Paris'', ''5'']) = 0
   \<and> requests (snd (script no_key_world [''1'', ''Paris'', ''5''])) = []
   \<and> ErrorLine MissingCredential \<in> set (stdout (snd (script no_key_world [''1'', ''Paris'', ''5''])))
   \<and> last (stdout (snd (script no_key_world [''1'', ''Paris'', ''5'']))) = Goodbye"
  by (simp add: script_def main_def main_loop.simps menu_iteration_def after_flow_def
      print_menu_def input_def print_def strip_def is_space_def Let_def
      search_city_flow_def prompt_city_name_def
      call_get_weather_def get_weather_def get_api_key_def no_key_world_def)

subsection \<open>Duplicates\<close>

text \<open>
  C1. Starting from the empty store, no sequence of add and update operations leaves more
  than three entries (\<open>script_capacity\<close>), but the store can hold the same canonical name
  twice: the membership test is made on the name as typed, the name appended is the one
  the API returned. Adding \<^verbatim>\<open>Paris\<close> and then \<^verbatim>\<open>paris\<close> stores \<^verbatim>\<open>Paris\<close> twice.
\<close>

theorem second_spelling_adds_duplicate:
  "fst (script (answering paris_body) [''2'', ''Paris'', ''2'', ''paris'', ''5'']) = 0
   \<and> favourites (snd (script (answering paris_body) [''2'', ''Paris'', ''2'', ''paris'', ''5'']))
       = [JStr ''Paris'', JStr ''Paris'']"
  by (simp add: script_def main_def main_loop.simps menu_iteration_def after_flow_def
      print_menu_def input_def print_def strip_def is_space_def Let_def
      add_favourite_flow_def prompt_city_name_def validate_and_append_def
      call_get_weather_def get_weather_def get_api_key_def answering_def paris_body_def
      simplify_def andthen_def getitem_def)

end
